theory Spec2Isabelle
  imports Complex_Main
begin

section \<open>Python values, errors and effects\<close>

text \<open>
  The exporter is dynamically typed Python. A value is a \<open>pyval\<close>; a float is read as a
  real number (rounding is not modelled); Blender's array properties (colours, vectors)
  are read as tuples, which is what slicing them with \<open>[:]\<close> yields. A dict is an
  association list in insertion order.
\<close>

datatype pyval =
    PNone
  | PBool bool
  | PInt int
  | PFloat real
  | PStr string
  | PTuple "pyval list"
  | PList "pyval list"
  | PDict "(string \<times> pyval) list"

datatype pytype = TNone | TBool | TInt | TFloat | TStr | TTuple | TList | TDict

fun py_type :: "pyval \<Rightarrow> pytype" where
  "py_type PNone = TNone"
| "py_type (PBool b) = TBool"
| "py_type (PInt i) = TInt"
| "py_type (PFloat r) = TFloat"
| "py_type (PStr s) = TStr"
| "py_type (PTuple xs) = TTuple"
| "py_type (PList xs) = TList"
| "py_type (PDict d) = TDict"

text \<open>\<open>isinstance(v, (float, int))\<close>: \<open>bool\<close> is a subclass of \<open>int\<close>.\<close>

fun is_number :: "pyval \<Rightarrow> bool" where
  "is_number (PBool b) = True"
| "is_number (PInt i) = True"
| "is_number (PFloat r) = True"
| "is_number v = False"

text \<open>
  The exceptions the code raises itself (\<open>NotImplementedError\<close>, \<open>ValueError\<close>) and the
  ones the interpreter raises for it. \<open>RecursionError\<close> is what unbounded recursion ends
  in; the recursive functions below carry the remaining call depth as their first argument.
\<close>

datatype error =
    NotImplementedError string
  | ValueError string
  | TypeError string
  | KeyError string
  | IndexError
  | ZeroDivisionError
  | RecursionError

text \<open>
  A call of \<open>ctx.report(level, message)\<close> is an entry of the log. A message is the list of
  the pieces of its f-string: literal text as \<open>PStr\<close>, an interpolated value as itself.
  A computation returns the reports it made and either the exception it raised or its value.
\<close>

type_synonym report = "string \<times> pyval list"

type_synonym 'a res = "report list \<times> (error + 'a)"

definition return :: "'a \<Rightarrow> 'a res" where
  "return x = ([], Inr x)"

definition raise :: "error \<Rightarrow> 'a res" where
  "raise e = ([], Inl e)"

definition lift :: "error + 'a \<Rightarrow> 'a res" where
  "lift r = ([], r)"

definition bind :: "'a res \<Rightarrow> ('a \<Rightarrow> 'b res) \<Rightarrow> 'b res" where
  "bind m f =
     (case m of
        (l1, Inl e) \<Rightarrow> (l1, Inl e)
      | (l1, Inr x) \<Rightarrow> (case f x of (l2, r) \<Rightarrow> (l1 @ l2, r)))"

definition report :: "string \<Rightarrow> pyval list \<Rightarrow> unit res" where
  "report level message = ([(level, message)], Inr ())"

subsection \<open>Dicts\<close>

fun dict_set :: "(string \<times> pyval) list \<Rightarrow> string \<Rightarrow> pyval \<Rightarrow> (string \<times> pyval) list" where
  "dict_set [] k v = [(k, v)]"
| "dict_set ((k', v') # d) k v = (if k' = k then (k, v) # d else (k', v') # dict_set d k v)"

fun dict_update :: "(string \<times> pyval) list \<Rightarrow> (string \<times> pyval) list \<Rightarrow> (string \<times> pyval) list" where
  "dict_update d [] = d"
| "dict_update d ((k, v) # e) = dict_update (dict_set d k v) e"

definition dict_get :: "(string \<times> pyval) list \<Rightarrow> string \<Rightarrow> error + pyval" where
  "dict_get d k = (case map_of d k of None \<Rightarrow> Inl (KeyError k) | Some v \<Rightarrow> Inr v)"

definition dict_has :: "(string \<times> pyval) list \<Rightarrow> string \<Rightarrow> bool" where
  "dict_has d k = (map_of d k \<noteq> None)"

definition dict_del :: "(string \<times> pyval) list \<Rightarrow> string \<Rightarrow> (string \<times> pyval) list" where
  "dict_del d k = filter (\<lambda>(k', v). k' \<noteq> k) d"

subsection \<open>Truth value, iteration, membership\<close>

fun truthy :: "pyval \<Rightarrow> bool" where
  "truthy PNone = False"
| "truthy (PBool b) = b"
| "truthy (PInt i) = (i \<noteq> 0)"
| "truthy (PFloat r) = (r \<noteq> 0)"
| "truthy (PStr s) = (s \<noteq> [])"
| "truthy (PTuple xs) = (xs \<noteq> [])"
| "truthy (PList xs) = (xs \<noteq> [])"
| "truthy (PDict d) = (d \<noteq> [])"

text \<open>\<open>list(value)\<close>: the elements of a sequence, the characters of a string, the keys of
  a dict; anything else is not iterable.\<close>

fun py_list :: "pyval \<Rightarrow> error + pyval list" where
  "py_list (PTuple xs) = Inr xs"
| "py_list (PList xs) = Inr xs"
| "py_list (PStr s) = Inr (map (\<lambda>c. PStr [c]) s)"
| "py_list (PDict d) = Inr (map (\<lambda>kv. PStr (fst kv)) d)"
| "py_list v = Inl (TypeError ''object is not iterable'')"

section \<open>scene.py: the value normalizer\<close>

text \<open>\<open>any(type(value[i]) != type(value[i + 1]) for i in range(len(value) - 1))\<close>\<close>

fun mixed_types :: "pyval list \<Rightarrow> bool" where
  "mixed_types (x # y # zs) = (py_type x \<noteq> py_type y \<or> mixed_types (y # zs))"
| "mixed_types xs = False"

text \<open>
  \<open>SceneWriter.color\<close>. The messages of its \<open>ValueError\<close>s are kept without the value
  they print. \<open>value[0]\<close> of an empty list raises \<open>IndexError\<close>.
\<close>

definition color :: "pyval \<Rightarrow> error + pyval" where
  "color v =
     (if is_number v then Inr v
      else
        (case py_list v of
           Inl e \<Rightarrow> Inl e
         | Inr value \<Rightarrow>
             if list_ex (\<lambda>x. \<not> (is_number x \<or> py_type x = TTuple)) value
             then Inl (ValueError ''Unknown color entry'')
             else if mixed_types value
             then Inl (ValueError ''Mixed types in color entry'')
             else
               (case value of
                  [] \<Rightarrow> Inl IndexError
                | x # rest \<Rightarrow>
                    if is_number x then
                      (if length value = 3 \<or> length value = 4 then Inr (PList (take 3 value))
                       else if length value = 1 then Inr x
                       else Inl (ValueError ''Expected color items to be 1,3 or 4''))
                    else Inr (PInt 0))))"

section \<open>The node graph\<close>

text \<open>
  A Blender node tree is a store of nodes: a link names the node it comes from by its
  address, so a tree may contain cycles. Every address denotes a node, as a Python
  reference does. An input socket is linked when it has a link; its \<open>default_value\<close> is the
  literal it holds otherwise. Enumeration and string properties of a node are read through
  \<open>sattr\<close>, all its other properties through \<open>attr\<close>; \<open>color_ramp_elements\<close> are the
  stops of a colour ramp, each with its position, colour and alpha.
\<close>

record out_socket =
  os_node :: nat
  os_name :: string

record link =
  from_node :: nat
  from_socket :: out_socket

record socket =
  links :: "link list"
  default_value :: pyval

record node =
  bl_idname :: string
  name :: string
  inputs :: "(string \<times> socket) list"
  sattr :: "string \<Rightarrow> string"
  attr :: "string \<Rightarrow> pyval"
  color_ramp_elements :: "(pyval \<times> pyval \<times> pyval) list"

type_synonym graph = "nat \<Rightarrow> node"

definition is_linked :: "socket \<Rightarrow> bool" where
  "is_linked s = (links s \<noteq> [])"

text \<open>\<open>socket.links[0]\<close>\<close>

definition links0 :: "socket \<Rightarrow> error + link" where
  "links0 s = (case links s of [] \<Rightarrow> Inl IndexError | l # ls \<Rightarrow> Inr l)"

text \<open>\<open>node.inputs[key]\<close>, \<open>key in node.inputs\<close>, \<open>node.inputs[i]\<close>\<close>

definition input :: "node \<Rightarrow> string \<Rightarrow> error + socket" where
  "input n k = (case map_of (inputs n) k of None \<Rightarrow> Inl (KeyError k) | Some s \<Rightarrow> Inr s)"

definition has_input :: "node \<Rightarrow> string \<Rightarrow> bool" where
  "has_input n k = (map_of (inputs n) k \<noteq> None)"

definition input_at :: "node \<Rightarrow> nat \<Rightarrow> error + socket" where
  "input_at n i = (if i < length (inputs n) then Inr (snd (inputs n ! i)) else Inl IndexError)"

section \<open>scene.py: the socket resolver\<close>

text \<open>\<open>SceneWriter.follow_link\<close>; the first argument bounds the depth of the recursion.\<close>

fun follow_link :: "nat \<Rightarrow> graph \<Rightarrow> socket \<Rightarrow> error + socket" where
  "follow_link 0 g socket = Inl RecursionError"
| "follow_link (Suc depth) g socket =
     (case links socket of
        [] \<Rightarrow> Inr socket
      | l # ls \<Rightarrow>
          if bl_idname (g (from_node l)) = ''NodeReroute''
          then (case input_at (g (from_node l)) 0 of
                  Inl e \<Rightarrow> Inl e
                | Inr s \<Rightarrow> follow_link depth g s)
          else Inr socket)"

text \<open>The chain of reroute nodes behind a socket: whether a socket is driven by a reroute
  node, and the socket reached after \<open>k\<close> reroute nodes.\<close>

definition driven_by_reroute :: "graph \<Rightarrow> socket \<Rightarrow> bool" where
  "driven_by_reroute g s =
     (case links s of [] \<Rightarrow> False | l # ls \<Rightarrow> bl_idname (g (from_node l)) = ''NodeReroute'')"

fun chain :: "nat \<Rightarrow> graph \<Rightarrow> socket \<Rightarrow> socket option" where
  "chain 0 g s = Some s"
| "chain (Suc k) g s =
     (case links s of
        [] \<Rightarrow> None
      | l # ls \<Rightarrow>
          if bl_idname (g (from_node l)) = ''NodeReroute''
          then (case input_at (g (from_node l)) 0 of Inl e \<Rightarrow> None | Inr s' \<Rightarrow> chain k g s')
          else None)"

section \<open>Arithmetic, comparison and strings\<close>

text \<open>A number as a real; any other operand makes the arithmetic raise \<open>TypeError\<close>.\<close>

fun as_real :: "pyval \<Rightarrow> error + real" where
  "as_real (PBool b) = Inr (if b then 1 else 0)"
| "as_real (PInt i) = Inr (of_int i)"
| "as_real (PFloat r) = Inr r"
| "as_real v = Inl (TypeError ''unsupported operand type'')"

fun as_int :: "pyval \<Rightarrow> int option" where
  "as_int (PBool b) = Some (if b then 1 else 0)"
| "as_int (PInt i) = Some i"
| "as_int v = None"

text \<open>\<open>a * b\<close> on numbers: an int when both are ints or bools, a float otherwise.
  (Python also repeats a sequence by an int; socket values that are multiplied here are
  numbers, and the model raises \<open>TypeError\<close> on everything else.)\<close>

definition py_mul :: "pyval \<Rightarrow> pyval \<Rightarrow> error + pyval" where
  "py_mul a b =
     (case (as_int a, as_int b) of
        (Some i, Some j) \<Rightarrow> Inr (PInt (i * j))
      | _ \<Rightarrow>
        (case as_real a of
           Inl e \<Rightarrow> Inl e
         | Inr x \<Rightarrow> (case as_real b of Inl e \<Rightarrow> Inl e | Inr y \<Rightarrow> Inr (PFloat (x * y)))))"

text \<open>\<open>a == b\<close>: numbers by value, sequences of one kind element by element.\<close>

fun py_eq :: "pyval \<Rightarrow> pyval \<Rightarrow> bool"
  and py_eq_list :: "pyval list \<Rightarrow> pyval list \<Rightarrow> bool" where
  "py_eq (PTuple xs) (PTuple ys) = py_eq_list xs ys"
| "py_eq (PList xs) (PList ys) = py_eq_list xs ys"
| "py_eq (PStr s) (PStr t) = (s = t)"
| "py_eq PNone PNone = True"
| "py_eq (PDict d) (PDict e) = (set d = set e)"
| "py_eq a b = (case (as_real a, as_real b) of (Inr x, Inr y) \<Rightarrow> x = y | _ \<Rightarrow> False)"
| "py_eq_list [] [] = True"
| "py_eq_list (x # xs) (y # ys) = (py_eq x y \<and> py_eq_list xs ys)"
| "py_eq_list xs ys = False"

text \<open>\<open>value[:]\<close>\<close>

fun slice_all :: "pyval \<Rightarrow> error + pyval" where
  "slice_all (PTuple xs) = Inr (PTuple xs)"
| "slice_all (PList xs) = Inr (PList xs)"
| "slice_all (PStr s) = Inr (PStr s)"
| "slice_all v = Inl (TypeError ''object is not subscriptable'')"

text \<open>\<open>value[i]\<close> on a sequence\<close>

definition item :: "pyval \<Rightarrow> nat \<Rightarrow> error + pyval" where
  "item v i =
     (case py_list v of
        Inl e \<Rightarrow> Inl (TypeError ''object is not subscriptable'')
      | Inr xs \<Rightarrow> if i < length xs then Inr (xs ! i) else Inl IndexError)"

text \<open>\<open>math.degrees\<close>\<close>

definition degrees :: "pyval \<Rightarrow> error + pyval" where
  "degrees a = (case as_real a of Inl e \<Rightarrow> Inl e | Inr x \<Rightarrow> Inr (PFloat (x * 180 / pi)))"

text \<open>\<open>numpy.sum\<close> of a list of numbers (of anything else: \<open>TypeError\<close>)\<close>

fun np_sum :: "pyval list \<Rightarrow> error + real" where
  "np_sum [] = Inr 0"
| "np_sum (x # xs) =
     (case as_real x of
        Inl e \<Rightarrow> Inl e
      | Inr r \<Rightarrow> (case np_sum xs of Inl e \<Rightarrow> Inl e | Inr t \<Rightarrow> Inr (r + t)))"

text \<open>\<open>str.lower\<close> and \<open>str.replace\<close> of one character, on ASCII\<close>

definition lower :: "string \<Rightarrow> string" where
  "lower s =
     map (\<lambda>c. if 65 \<le> (of_char c :: nat) \<and> (of_char c :: nat) \<le> 90
              then char_of ((of_char c :: nat) + 32) else c) s"

definition replace_char :: "char \<Rightarrow> char \<Rightarrow> string \<Rightarrow> string" where
  "replace_char a b s = map (\<lambda>c. if c = a then b else c) s"

text \<open>Mapping over a list with a function that may raise: the first error stops it.\<close>

fun map_err :: "('a \<Rightarrow> error + 'b) \<Rightarrow> 'a list \<Rightarrow> error + 'b list" where
  "map_err f [] = Inr []"
| "map_err f (x # xs) =
     (case f x of
        Inl e \<Rightarrow> Inl e
      | Inr y \<Rightarrow> (case map_err f xs of Inl e \<Rightarrow> Inl e | Inr ys \<Rightarrow> Inr (y # ys)))"

section \<open>The export context\<close>

text \<open>
  The fields of \<open>SceneWriter\<close> the converters read. \<open>os_path_basename\<close> and
  \<open>os_path_splitext\<close> stand for the standard library's path functions.
\<close>

record ctx =
  verbose :: bool
  write_texture_files :: bool
  material_mode :: string
  glossy_mode :: string
  use_normal_maps :: bool
  use_bump_maps :: bool
  force_two_sided :: bool
  enable_blackbody :: bool
  enable_brick :: bool
  enable_checker :: bool
  enable_clamp :: bool
  enable_color_ramp :: bool
  enable_coord :: bool
  enable_fresnel :: bool
  enable_gradient :: bool
  enable_layer_weight :: bool
  enable_mapping :: bool
  enable_math :: bool
  enable_musgrave :: bool
  enable_mix_rgb :: bool
  enable_mix_node :: bool
  enable_noise :: bool
  enable_separate :: bool
  enable_voronoi :: bool
  enable_wave :: bool
  enable_wavelength :: bool
  enable_wireframe :: bool
  os_path_basename :: "string \<Rightarrow> string"
  os_path_splitext :: "string \<Rightarrow> string \<times> string"

text \<open>\<open>SceneWriter.info\<close>\<close>

definition info :: "ctx \<Rightarrow> pyval list \<Rightarrow> unit res" where
  "info c message = (if verbose c then report ''INFO'' message else return ())"

text \<open>\<open>SceneWriter.material_name\<close>\<close>

definition material_name :: "string \<Rightarrow> string" where
  "material_name b_name = replace_char (CHR '' '') (CHR ''_'') b_name"

text \<open>\<open>SceneWriter.LRS_matrix\<close>; \<open>rot.x\<close>, \<open>rot.y\<close>, \<open>rot.z\<close> are the components of \<open>rot\<close>.\<close>

definition LRS_matrix :: "ctx \<Rightarrow> pyval \<Rightarrow> pyval \<Rightarrow> pyval \<Rightarrow> pyval res" where
  "LRS_matrix c loc rot sca =
     bind (lift (py_list rot)) (\<lambda>rs.
     bind (lift (map_err degrees rs)) (\<lambda>ds.
     bind (info c [PStr (''Writing matrix as'' @ [CHR 0x0A, CHR 0x09]), loc,
                   PStr [CHR 0x0A, CHR 0x09], PTuple ds, PStr [CHR 0x0A, CHR 0x09], sca]) (\<lambda>u.
     bind (lift (slice_all sca)) (\<lambda>s1.
     bind (if \<not> py_eq s1 (PTuple [PInt 1, PInt 1, PInt 1])
           then bind (lift (slice_all sca)) (\<lambda>s2. return [PDict [(''scale'', s2)]])
           else return []) (\<lambda>params.
     bind (lift (slice_all rot)) (\<lambda>r1.
     bind (if \<not> py_eq r1 (PTuple [PInt 0, PInt 0, PInt 0])
           then
             bind (lift (item rot 0)) (\<lambda>x. bind (lift (degrees x)) (\<lambda>dx.
             bind (lift (item rot 1)) (\<lambda>y. bind (lift (degrees y)) (\<lambda>dy.
             bind (lift (item rot 2)) (\<lambda>z. bind (lift (degrees z)) (\<lambda>dz.
             return (params @
               [PDict [(''rotate'', PTuple [dx, PInt 1, PInt 0, PInt 0])],
                PDict [(''rotate'', PTuple [dy, PInt 0, PInt 1, PInt 0])],
                PDict [(''rotate'', PTuple [dz, PInt 0, PInt 0, PInt 1])]])))))))
           else return params) (\<lambda>params.
     bind (lift (slice_all loc)) (\<lambda>l1.
     bind (if \<not> py_eq l1 (PTuple [PInt 0, PInt 0, PInt 0])
           then bind (lift (slice_all loc)) (\<lambda>l2. return (params @ [PDict [(''translate'', l2)]]))
           else return params) (\<lambda>params.
     return (PList params))))))))))"

section \<open>textures.py\<close>

text \<open>
  Every converter takes the recursive \<open>convert_texture_node\<close> as its argument \<open>tex\<close>; the
  knot is tied in \<open>convert_texture_node\<close> below. \<open>node\<close> is \<open>out_socket.node\<close>.
\<close>

text \<open>\<open>convert_texture_node(ctx, node.inputs[k])\<close>, \<open>node.inputs[k].is_linked\<close> and
  \<open>node.inputs[k].default_value\<close>\<close>

definition conv_input :: "(socket \<Rightarrow> pyval res) \<Rightarrow> node \<Rightarrow> string \<Rightarrow> pyval res" where
  "conv_input tex n k = bind (lift (input n k)) tex"

definition input_linked :: "node \<Rightarrow> string \<Rightarrow> bool res" where
  "input_linked n k = bind (lift (input n k)) (\<lambda>s. return (is_linked s))"

definition input_default :: "node \<Rightarrow> string \<Rightarrow> pyval res" where
  "input_default n k = bind (lift (input n k)) (\<lambda>s. return (default_value s))"

text \<open>A dict display \<open>{k1: e1, k2: e2, ...}\<close>: the values are computed from left to right.\<close>

fun dict_lit :: "(string \<times> pyval) list \<Rightarrow> (string \<times> pyval res) list \<Rightarrow> (string \<times> pyval) list res" where
  "dict_lit d [] = return d"
| "dict_lit d (f # fs) = bind (snd f) (\<lambda>v. dict_lit (dict_set d (fst f) v) fs)"

definition dummy_color :: "pyval res" where
  "dummy_color = lift (color (PList [PFloat 0.0, PFloat 1.0, PFloat 0.3]))"

definition lookup :: "(string \<times> 'a) list \<Rightarrow> string \<Rightarrow> 'a res" where
  "lookup table k = (case map_of table k of None \<Rightarrow> raise (KeyError k) | Some v \<Rightarrow> return v)"

definition texture_exts :: "(string \<times> string) list" where
  "texture_exts =
     [(''BMP'', ''.bmp''), (''HDR'', ''.hdr''), (''JPEG'', ''.jpg''), (''JPEG2000'', ''.jpg''),
      (''PNG'', ''.png''), (''OPEN_EXR'', ''.exr''), (''OPEN_EXR_MULTILAYER'', ''.exr''),
      (''TARGA'', ''.tga''), (''TARGA_RAW'', ''.tga'')]"

definition convert_format :: "(string \<times> string) list" where
  "convert_format = [(''CINEON'', ''EXR''), (''DPX'', ''EXR''), (''TIFF'', ''PNG''), (''IRIS'', ''PNG'')]"

text \<open>
  \<open>export_image\<close>: the path it returns. The image is the one of the node; writing the file
  (under \<open>write_texture_files\<close>) and the new \<open>file_format\<close> it leaves on the image are
  outside the model.
\<close>

definition export_image :: "ctx \<Rightarrow> node \<Rightarrow> string res" where
  "export_image c n =
     bind (case map_of convert_format (sattr n ''image.file_format'') of
             Some f \<Rightarrow>
               bind (info c [PStr (''Image format of '' @ [CHR 0x27] @ sattr n ''image.name'' @ [CHR 0x27]
                        @ '' is not supported. Converting it to '' @ f @ ''.'')])
                 (\<lambda>u. return f)
           | None \<Rightarrow> return (sattr n ''image.file_format'')) (\<lambda>file_format.
     let original_name = os_path_basename c (sattr n ''image.filepath'') in
     bind (if original_name \<noteq> [] \<and>
              take (length original_name) (sattr n ''image.name'') = original_name
           then
             (let base_name = fst (os_path_splitext c original_name);
                  nm = base_name @ drop (length original_name) (sattr n ''image.name'')
              in bind (lookup texture_exts file_format) (\<lambda>ext. return (nm @ ext)))
           else bind (lookup texture_exts file_format) (\<lambda>ext. return (sattr n ''image.name'' @ ext)))
       (\<lambda>nm. return (''textures/'' @ nm)))"

definition colorspace_warning :: "node \<Rightarrow> pyval list" where
  "colorspace_warning n =
     [PStr (''Texture '' @ [CHR 0x27] @ sattr n ''image'' @ [CHR 0x27] @ '' uses ''
        @ sattr n ''image.colorspace_settings.name''
        @ '' colorspace. Darts only supports sRGB textures for color data.'')]"

definition convert_image_texture_node ::
  "ctx \<Rightarrow> graph \<Rightarrow> (socket \<Rightarrow> pyval res) \<Rightarrow> out_socket \<Rightarrow> pyval res" where
  "convert_image_texture_node c g tex out_socket =
     (let n = g (os_node out_socket) in
      bind (dict_lit []
        [(''type'', return (PStr ''image'')),
         (''filename'', bind (export_image c n) (\<lambda>f. return (PStr f))),
         (''interpolation'', return (PStr (lower (sattr n ''interpolation'')))),
         (''projection'', return (PStr (lower (sattr n ''projection'')))),
         (''projection blend'', return (attr n ''projection_blend''))]) (\<lambda>params.
      bind (if sattr n ''image.colorspace_settings.name'' \<in> {''Non-Color'', ''Raw'', ''Linear''}
            then return (dict_set params ''raw'' (PBool True))
            else if sattr n ''image.colorspace_settings.name'' \<noteq> ''sRGB''
            then bind (report ''WARNING'' (colorspace_warning n)) (\<lambda>u. return params)
            else return params) (\<lambda>params.
      bind (if os_name out_socket = ''Color'' then return (dict_set params ''output'' (PStr ''color''))
            else if os_name out_socket = ''Alpha'' then return (dict_set params ''output'' (PStr ''alpha''))
            else raise (NotImplementedError (''Unrecognized output socket '' @ [CHR 0x27]
                   @ os_name out_socket @ [CHR 0x27] @ '' on image texture node''))) (\<lambda>params.
      bind (if sattr n ''extension'' = ''CLIP''
            then report ''WARNING''
              [PStr ([CHR 0x27] @ ''CLIP'' @ [CHR 0x27] @ '' extension mode behaves differently in Blender than in Darts.'')]
            else return ()) (\<lambda>u.
      bind (lookup [(''REPEAT'', ''repeat''), (''EXTEND'', ''CLAMP''), (''CLIP'', ''black'')]
              (sattr n ''extension'')) (\<lambda>m.
      let params = dict_set (dict_set params ''wrap mode x'' (PStr m)) ''wrap mode y'' (PStr m) in
      bind (input_linked n ''Vector'') (\<lambda>b.
      if b then bind (conv_input tex n ''Vector'') (\<lambda>v. return (PDict (dict_set params ''vector'' v)))
      else return (PDict params))))))))"

definition convert_environment_texture_node ::
  "ctx \<Rightarrow> graph \<Rightarrow> (socket \<Rightarrow> pyval res) \<Rightarrow> out_socket \<Rightarrow> pyval res" where
  "convert_environment_texture_node c g tex out_socket =
     (let n = g (os_node out_socket) in
      bind (dict_lit []
        [(''type'', return (PStr ''envmap'')),
         (''filename'', bind (export_image c n) (\<lambda>f. return (PStr f))),
         (''output'', return (PStr ''color'')),
         (''interpolation'', return (PStr (lower (sattr n ''interpolation''))))]) (\<lambda>params.
      bind (if sattr n ''image.colorspace_settings.name'' \<in> {''Non-Color'', ''Raw'', ''Linear''}
            then return (dict_set params ''raw'' (PBool True))
            else if sattr n ''image.colorspace_settings.name'' \<noteq> ''sRGB''
            then bind (report ''WARNING'' (colorspace_warning n)) (\<lambda>u. return params)
            else return params) (\<lambda>params.
      bind (if sattr n ''projection'' \<noteq> ''EQUIRECTANGULAR''
            then report ''WARNING''
              [PStr (''Darts only supports '' @ [CHR 0x27] @ ''EQUIRECTANGULAR'' @ [CHR 0x27]
                 @ '' envmaps. Ignoring '' @ sattr n ''projection'' @ ''.'')]
            else return ()) (\<lambda>u.
      bind (input_linked n ''Vector'') (\<lambda>b.
      if b then bind (conv_input tex n ''Vector'') (\<lambda>v. return (PDict (dict_set params ''vector'' v)))
      else return (PDict params))))))"

definition convert_checker_texture_node ::
  "ctx \<Rightarrow> graph \<Rightarrow> (socket \<Rightarrow> pyval res) \<Rightarrow> out_socket \<Rightarrow> pyval res" where
  "convert_checker_texture_node c g tex out_socket =
     (if \<not> enable_checker c then dummy_color
      else
        (let n = g (os_node out_socket) in
         bind (input_linked n ''Scale'') (\<lambda>b.
         if b then raise (NotImplementedError
                    (''Textured '' @ [CHR 0x27] @ ''Scale'' @ [CHR 0x27] @ '' values are not supported''))
         else
           bind (dict_lit []
             [(''type'', return (PStr ''checker'')),
              (''scale'', conv_input tex n ''Scale''),
              (''color1'', conv_input tex n ''Color1''),
              (''color2'', conv_input tex n ''Color2'')]) (\<lambda>params.
           bind (input_linked n ''Vector'') (\<lambda>b.
           if b then bind (conv_input tex n ''Vector'') (\<lambda>v. return (PDict (dict_set params ''vector'' v)))
           else return (PDict params))))))"

definition convert_brick_texture_node ::
  "ctx \<Rightarrow> graph \<Rightarrow> (socket \<Rightarrow> pyval res) \<Rightarrow> out_socket \<Rightarrow> pyval res" where
  "convert_brick_texture_node c g tex out_socket =
     (if \<not> enable_brick c then dummy_color
      else
        (let n = g (os_node out_socket) in
         bind (dict_lit []
           [(''type'', return (PStr ''brick'')),
            (''offset'', return (attr n ''offset'')),
            (''offset frequency'', return (attr n ''offset_frequency'')),
            (''squash'', return (attr n ''squash'')),
            (''squash frequency'', return (attr n ''squash_frequency'')),
            (''color1'', conv_input tex n ''Color1''),
            (''color2'', conv_input tex n ''Color2''),
            (''mortar'', conv_input tex n ''Mortar''),
            (''scale'', conv_input tex n ''Scale''),
            (''mortar size'', conv_input tex n ''Mortar Size''),
            (''mortar smooth'', conv_input tex n ''Mortar Smooth''),
            (''bias'', conv_input tex n ''Bias''),
            (''brick width'', conv_input tex n ''Brick Width''),
            (''row height'', conv_input tex n ''Row Height''),
            (''output'', return (PStr (if os_name out_socket = ''Fac'' then ''float'' else ''color'')))])
           (\<lambda>params.
         bind (input_linked n ''Vector'') (\<lambda>b.
         if b then bind (conv_input tex n ''Vector'') (\<lambda>v. return (PDict (dict_set params ''vector'' v)))
         else return (PDict params)))))"

definition convert_wave_texture_node ::
  "ctx \<Rightarrow> graph \<Rightarrow> (socket \<Rightarrow> pyval res) \<Rightarrow> out_socket \<Rightarrow> pyval res" where
  "convert_wave_texture_node c g tex out_socket =
     (if \<not> enable_wave c then lift (color (PFloat 0.5))
      else
        (let n = g (os_node out_socket) in
         bind (dict_lit []
           [(''type'', return (PStr ''wave'')),
            (''wave type'', return (PStr (lower (sattr n ''wave_type'')))),
            (''direction'', return (PStr (if sattr n ''wave_type'' = ''BANDS''
                                          then lower (sattr n ''bands_direction'')
                                          else lower (sattr n ''rings_direction'')))),
            (''profile'', bind (lookup [(''SIN'', ''sine''), (''SAW'', ''saw''), (''TRI'', ''triangle'')]
                                  (sattr n ''wave_profile'')) (\<lambda>p. return (PStr p))),
            (''scale'', conv_input tex n ''Scale''),
            (''distortion'', conv_input tex n ''Distortion''),
            (''detail'', conv_input tex n ''Detail''),
            (''detail scale'', conv_input tex n ''Detail Scale''),
            (''detail roughness'', conv_input tex n ''Detail Roughness''),
            (''phase offset'', conv_input tex n ''Phase Offset'')]) (\<lambda>params.
         bind (input_linked n ''Vector'') (\<lambda>b.
         if b then bind (conv_input tex n ''Vector'') (\<lambda>v. return (PDict (dict_set params ''vector'' v)))
         else return (PDict params)))))"

text \<open>The table \<open>dimensions\<close> of the four procedural textures\<close>

definition dimensions :: "(string \<times> int) list" where
  "dimensions = [(''1D'', 1), (''2D'', 2), (''3D'', 3), (''4D'', 4)]"

definition convert_white_noise_texture_node ::
  "ctx \<Rightarrow> graph \<Rightarrow> (socket \<Rightarrow> pyval res) \<Rightarrow> out_socket \<Rightarrow> pyval res" where
  "convert_white_noise_texture_node c g tex out_socket =
     (let n = g (os_node out_socket) in
      bind (lookup dimensions (sattr n ''noise_dimensions'')) (\<lambda>dims.
      bind (dict_lit []
        [(''type'', return (PStr ''white noise'')),
         (''dimensions'', return (PInt dims)),
         (''output'', return (PStr (if os_name out_socket = ''Value'' then ''float'' else ''color'')))])
        (\<lambda>params.
      bind (if dims = 1 \<or> dims = 4
            then bind (conv_input tex n ''W'') (\<lambda>w. return (dict_set params ''w'' w))
            else return params) (\<lambda>params.
      if dims \<noteq> 1 then
        bind (input_linked n ''Vector'') (\<lambda>b.
        if b then bind (conv_input tex n ''Vector'') (\<lambda>v. return (PDict (dict_set params ''vector'' v)))
        else return (PDict params))
      else return (PDict params)))))"

definition convert_noise_texture_node ::
  "ctx \<Rightarrow> graph \<Rightarrow> (socket \<Rightarrow> pyval res) \<Rightarrow> out_socket \<Rightarrow> pyval res" where
  "convert_noise_texture_node c g tex out_socket =
     (if \<not> enable_noise c then lift (color (PFloat 0.5))
      else
        (let n = g (os_node out_socket) in
         bind (lookup dimensions (sattr n ''noise_dimensions'')) (\<lambda>dims.
         bind (dict_lit []
           [(''type'', return (PStr ''noise'')),
            (''scale'', conv_input tex n ''Scale''),
            (''detail'', conv_input tex n ''Detail''),
            (''roughness'', conv_input tex n ''Roughness''),
            (''lacunarity'', conv_input tex n ''Lacunarity''),
            (''distortion'', conv_input tex n ''Distortion''),
            (''dimensions'', return (PInt dims)),
            (''normalize'', return (attr n ''normalize'')),
            (''output'', return (PStr (if os_name out_socket = ''Fac'' then ''float'' else ''color'')))])
           (\<lambda>params.
         bind (if dims = 1 \<or> dims = 4
               then bind (conv_input tex n ''W'') (\<lambda>w. return (dict_set params ''w'' w))
               else return params) (\<lambda>params.
         if dims \<noteq> 1 then
           bind (input_linked n ''Vector'') (\<lambda>b.
           if b then bind (conv_input tex n ''Vector'') (\<lambda>v. return (PDict (dict_set params ''vector'' v)))
           else return (PDict params))
         else return (PDict params))))))"

definition convert_voronoi_texture_node ::
  "ctx \<Rightarrow> graph \<Rightarrow> (socket \<Rightarrow> pyval res) \<Rightarrow> out_socket \<Rightarrow> pyval res" where
  "convert_voronoi_texture_node c g tex out_socket =
     (if \<not> enable_voronoi c then lift (color (PFloat 0.5))
      else
        (let n = g (os_node out_socket) in
         bind (lookup dimensions (sattr n ''voronoi_dimensions'')) (\<lambda>dims.
         bind (dict_lit []
           [(''type'', return (PStr ''voronoi'')),
            (''scale'', conv_input tex n ''Scale''),
            (''randomness'', conv_input tex n ''Randomness''),
            (''dimensions'', return (PInt dims)),
            (''feature'', return (PStr (replace_char (CHR ''_'') (CHR '' '') (lower (sattr n ''feature''))))),
            (''distance'', return (PStr (lower (sattr n ''distance'')))),
            (''output'', return (PStr (lower (os_name out_socket))))]) (\<lambda>params.
         bind (bind (lift (dict_get params ''feature'')) (\<lambda>f.
               if py_eq f (PStr ''smooth f1'')
               then bind (conv_input tex n ''Smoothness'') (\<lambda>sm. return (dict_set params ''smoothness'' sm))
               else return params)) (\<lambda>params.
         bind (if dims = 1 \<or> dims = 4
               then bind (conv_input tex n ''W'') (\<lambda>w. return (dict_set params ''w'' w))
               else return params) (\<lambda>params.
         if dims \<noteq> 1 then
           bind (input_linked n ''Vector'') (\<lambda>b.
           if b then bind (conv_input tex n ''Vector'') (\<lambda>v. return (PDict (dict_set params ''vector'' v)))
           else return (PDict params))
         else return (PDict params)))))))"

definition convert_musgrave_texture_node ::
  "ctx \<Rightarrow> graph \<Rightarrow> (socket \<Rightarrow> pyval res) \<Rightarrow> out_socket \<Rightarrow> pyval res" where
  "convert_musgrave_texture_node c g tex out_socket =
     (if \<not> enable_musgrave c then lift (color (PFloat 0.5))
      else
        (let n = g (os_node out_socket) in
         bind (lookup dimensions (sattr n ''noise_dimensions'')) (\<lambda>dims.
         bind (dict_lit []
           [(''type'', return (PStr ''musgrave'')),
            (''fractal type'',
               return (PStr (replace_char (CHR ''_'') (CHR '' '') (lower (sattr n ''musgrave_type''))))),
            (''scale'', conv_input tex n ''Scale''),
            (''detail'', conv_input tex n ''Detail''),
            (''dimension'', conv_input tex n ''Dimension''),
            (''lacunarity'', conv_input tex n ''Lacunarity''),
            (''offset'', conv_input tex n ''Offset''),
            (''gain'', conv_input tex n ''Gain''),
            (''dimensions'', return (PInt dims))]) (\<lambda>params.
         bind (if dims = 1 \<or> dims = 4
               then bind (conv_input tex n ''W'') (\<lambda>w. return (dict_set params ''w'' w))
               else return params) (\<lambda>params.
         if dims \<noteq> 1 then
           bind (input_linked n ''Vector'') (\<lambda>b.
           if b then bind (conv_input tex n ''Vector'') (\<lambda>v. return (PDict (dict_set params ''vector'' v)))
           else return (PDict params))
         else return (PDict params))))))"

definition convert_layer_weight_node ::
  "ctx \<Rightarrow> graph \<Rightarrow> (socket \<Rightarrow> pyval res) \<Rightarrow> out_socket \<Rightarrow> pyval res" where
  "convert_layer_weight_node c g tex out_socket =
     (if \<not> enable_layer_weight c then lift (color (PFloat 0.5))
      else
        (let n = g (os_node out_socket) in
         if os_name out_socket = ''Fresnel'' then
           bind (input_linked n ''Blend'') (\<lambda>b.
           bind (if b then report ''WARNING''
                   [PStr ''Textured Blend values for Fresnel are not currently supported in Darts. Using the default value instead.'']
                 else return ()) (\<lambda>u.
           bind (input_default n ''Blend'') (\<lambda>blend.
           bind (lift (as_real blend)) (\<lambda>x.
           return (PDict [(''type'', PStr ''fresnel''), (''ior'', PFloat (1.0 / max (1.0 - x) (1 / 100000)))])))))
         else if os_name out_socket = ''Facing'' then
           bind (dict_lit []
             [(''type'', return (PStr ''facing'')),
              (''blend'', conv_input tex n ''Blend'')]) (\<lambda>params. return (PDict params))
         else raise (NotImplementedError
           (''Unsupported Layer Weight type, expecting either '' @ [CHR 0x27] @ ''Fresnel'' @ [CHR 0x27]
              @ '' or '' @ [CHR 0x27] @ ''Facing'' @ [CHR 0x27]))))"

definition convert_mix_rgb_node ::
  "ctx \<Rightarrow> graph \<Rightarrow> (socket \<Rightarrow> pyval res) \<Rightarrow> out_socket \<Rightarrow> pyval res" where
  "convert_mix_rgb_node c g tex out_socket =
     (if \<not> enable_mix_rgb c then dummy_color
      else
        (let n = g (os_node out_socket) in
         bind (dict_lit []
           [(''type'', return (PStr ''mix'')),
            (''blend type'', return (PStr (replace_char (CHR ''_'') (CHR '' '') (lower (sattr n ''blend_type''))))),
            (''clamp result'', return (attr n ''use_clamp'')),
            (''factor'', conv_input tex n ''Fac''),
            (''a'', conv_input tex n ''Color1''),
            (''b'', conv_input tex n ''Color2'')]) (\<lambda>params. return (PDict params))))"

definition convert_mix_node ::
  "ctx \<Rightarrow> graph \<Rightarrow> (socket \<Rightarrow> pyval res) \<Rightarrow> out_socket \<Rightarrow> pyval res" where
  "convert_mix_node c g tex out_socket =
     (if \<not> enable_mix_node c then dummy_color
      else
        (let n = g (os_node out_socket) in
         if sattr n ''data_type'' \<noteq> ''RGBA'' \<and> sattr n ''data_type'' \<noteq> ''FLOAT''
         then raise (NotImplementedError ''Only Color and Float mix nodes are currently supported in Darts'')
         else
           bind (dict_lit []
             [(''type'', return (PStr ''mix'')),
              (''blend type'', return (PStr (replace_char (CHR ''_'') (CHR '' '') (lower (sattr n ''blend_type''))))),
              (''clamp factor'', return (attr n ''clamp_factor'')),
              (''clamp result'', return (attr n ''clamp_result'')),
              (''factor'', conv_input tex n ''Fac''),
              (''a'', conv_input tex n ''Color1''),
              (''b'', conv_input tex n ''Color2'')]) (\<lambda>params. return (PDict params))))"

definition convert_clamp_node ::
  "ctx \<Rightarrow> graph \<Rightarrow> (socket \<Rightarrow> pyval res) \<Rightarrow> out_socket \<Rightarrow> pyval res" where
  "convert_clamp_node c g tex out_socket =
     (if \<not> enable_clamp c then dummy_color
      else
        (let n = g (os_node out_socket) in
         bind (dict_lit []
           [(''type'', return (PStr ''clamp'')),
            (''clamp type'', return (PStr (lower (sattr n ''clamp_type'')))),
            (''value'', conv_input tex n ''Value''),
            (''min'', conv_input tex n ''Min''),
            (''max'', conv_input tex n ''Max'')]) (\<lambda>params. return (PDict params))))"

definition convert_fresnel_node ::
  "ctx \<Rightarrow> graph \<Rightarrow> (socket \<Rightarrow> pyval res) \<Rightarrow> out_socket \<Rightarrow> pyval res" where
  "convert_fresnel_node c g tex out_socket =
     (if \<not> enable_fresnel c then lift (color (PFloat 0.5))
      else
        (let n = g (os_node out_socket) in
         bind (input_linked n ''IOR'') (\<lambda>b.
         bind (if b then report ''WARNING''
                 [PStr ''Textured IOR values are not supported in Darts. Using the default value instead.'']
               else return ()) (\<lambda>u.
         bind (input_default n ''IOR'') (\<lambda>ior.
         return (PDict [(''type'', PStr ''fresnel''), (''ior'', ior)]))))))"

definition convert_rgb_node ::
  "ctx \<Rightarrow> graph \<Rightarrow> (socket \<Rightarrow> pyval res) \<Rightarrow> out_socket \<Rightarrow> pyval res" where
  "convert_rgb_node c g tex out_socket =
     (let n = g (os_node out_socket) in lift (color (attr n ''color'')))"

definition convert_blackbody_node ::
  "ctx \<Rightarrow> graph \<Rightarrow> (socket \<Rightarrow> pyval res) \<Rightarrow> out_socket \<Rightarrow> pyval res" where
  "convert_blackbody_node c g tex out_socket =
     (if \<not> enable_blackbody c then dummy_color
      else
        (let n = g (os_node out_socket) in
         bind (dict_lit []
           [(''type'', return (PStr ''blackbody'')),
            (''temperature'', conv_input tex n ''Temperature'')]) (\<lambda>params. return (PDict params))))"

definition convert_wavelength_node ::
  "ctx \<Rightarrow> graph \<Rightarrow> (socket \<Rightarrow> pyval res) \<Rightarrow> out_socket \<Rightarrow> pyval res" where
  "convert_wavelength_node c g tex out_socket =
     (if \<not> enable_wavelength c then dummy_color
      else
        (let n = g (os_node out_socket) in
         bind (dict_lit []
           [(''type'', return (PStr ''wavelength'')),
            (''wavelength'', conv_input tex n ''Wavelength'')]) (\<lambda>params. return (PDict params))))"

definition convert_coord_texture_node ::
  "ctx \<Rightarrow> graph \<Rightarrow> (socket \<Rightarrow> pyval res) \<Rightarrow> out_socket \<Rightarrow> pyval res" where
  "convert_coord_texture_node c g tex out_socket =
     (if \<not> enable_coord c then dummy_color
      else
        (let n = g (os_node out_socket) in
         bind (if attr n ''object'' \<noteq> PNone then report ''WARNING''
                 [PStr ''Darts does not currently support texture coordinates from other objects. Ignoring.'']
               else return ()) (\<lambda>u.
         return (PDict [(''type'', PStr ''coord''), (''coordinate'', PStr (lower (os_name out_socket)))]))))"

definition convert_mapping_node ::
  "ctx \<Rightarrow> graph \<Rightarrow> (socket \<Rightarrow> pyval res) \<Rightarrow> out_socket \<Rightarrow> pyval res" where
  "convert_mapping_node c g tex out_socket =
     (if \<not> enable_mapping c then return PNone
      else
        (let n = g (os_node out_socket);
             params = [(''type'', PStr ''mapping''), (''vector type'', PStr (lower (sattr n ''vector_type'')))]
         in
         bind (bind (lift (dict_get params ''vector type'')) (\<lambda>vt.
               info c [PStr (''Writing '' @ [CHR 0x27]), vt, PStr ([CHR 0x27] @ '' mapping node.'')])) (\<lambda>u.
         bind (input_linked n ''Location'') (\<lambda>b1.
         bind (if b1 then return True else input_linked n ''Rotation'') (\<lambda>b2.
         bind (if b2 then return True else input_linked n ''Scale'') (\<lambda>b3.
         if b3 then raise (NotImplementedError
             (''Location, Rotation, and Scale inputs shouldn'' @ [CHR 0x27] @ ''t be linked''))
         else
           bind (input_default n ''Location'') (\<lambda>loc.
           bind (input_default n ''Rotation'') (\<lambda>rot.
           bind (input_default n ''Scale'') (\<lambda>sca.
           bind (LRS_matrix c loc rot sca) (\<lambda>m.
           let params = dict_set params ''transform'' m in
           bind (input_linked n ''Vector'') (\<lambda>b.
           if b then bind (conv_input tex n ''Vector'') (\<lambda>v. return (PDict (dict_set params ''vector'' v)))
           else return (PDict params))))))))))))"

definition convert_wireframe_texture_node ::
  "ctx \<Rightarrow> graph \<Rightarrow> (socket \<Rightarrow> pyval res) \<Rightarrow> out_socket \<Rightarrow> pyval res" where
  "convert_wireframe_texture_node c g tex out_socket =
     (if \<not> enable_wireframe c then dummy_color
      else
        (let n = g (os_node out_socket) in
         bind (dict_lit []
           [(''type'', return (PStr ''wireframe'')),
            (''size'', conv_input tex n ''Size''),
            (''pixel size'', return (attr n ''use_pixel_size''))]) (\<lambda>params. return (PDict params))))"

definition convert_light_path_texture_node ::
  "ctx \<Rightarrow> graph \<Rightarrow> (socket \<Rightarrow> pyval res) \<Rightarrow> out_socket \<Rightarrow> pyval res" where
  "convert_light_path_texture_node c g tex out_socket =
     return (PDict [(''type'', PStr ''light path''), (''output'', PStr (lower (os_name out_socket)))])"

definition convert_color_attrib_node ::
  "ctx \<Rightarrow> graph \<Rightarrow> (socket \<Rightarrow> pyval res) \<Rightarrow> out_socket \<Rightarrow> pyval res" where
  "convert_color_attrib_node c g tex out_socket = return (PDict [(''type'', PStr ''vertex colors'')])"

text \<open>One stop of a colour ramp: \<open>{"position": e.position, "color": ctx.color(e.color),
  "alpha": e.alpha}\<close>\<close>

definition ramp_element :: "pyval \<times> pyval \<times> pyval \<Rightarrow> error + pyval" where
  "ramp_element e =
     (case e of (position, col, alpha) \<Rightarrow>
        (case color col of
           Inl err \<Rightarrow> Inl err
         | Inr cv \<Rightarrow> Inr (PDict [(''position'', position), (''color'', cv), (''alpha'', alpha)])))"

definition convert_val_to_rgb_node ::
  "ctx \<Rightarrow> graph \<Rightarrow> (socket \<Rightarrow> pyval res) \<Rightarrow> out_socket \<Rightarrow> pyval res" where
  "convert_val_to_rgb_node c g tex out_socket =
     (if \<not> enable_color_ramp c then dummy_color
      else
        (let n = g (os_node out_socket) in
         bind (dict_lit []
           [(''type'', return (PStr ''color ramp'')),
            (''factor'', conv_input tex n ''Fac''),
            (''color mode'', return (PStr (lower (sattr n ''color_ramp.color_mode'')))),
            (''interpolation'',
               return (PStr (replace_char (CHR ''_'') (CHR ''-'') (lower (sattr n ''color_ramp.interpolation''))))),
            (''hue interpolation'', return (PStr (lower (sattr n ''color_ramp.hue_interpolation'')))),
            (''elements'',
               bind (lift (map_err ramp_element (color_ramp_elements n))) (\<lambda>es. return (PList es))),
            (''output'', return (PStr (if os_name out_socket = ''Alpha'' then ''float'' else ''color'')))])
           (\<lambda>params. return (PDict params))))"

text \<open>
  In \<open>convert_separate_node\<close> the socket \<open>node.inputs["Color"]\<close> is looked up first (a node
  without it raises \<open>KeyError\<close>) and, being an object, is true: the \<open>"Vector"\<close> alternative
  is never taken.
\<close>

definition convert_separate_node ::
  "ctx \<Rightarrow> graph \<Rightarrow> (socket \<Rightarrow> pyval res) \<Rightarrow> out_socket \<Rightarrow> pyval res" where
  "convert_separate_node c g tex out_socket =
     (if \<not> enable_separate c then dummy_color
      else
        (let n = g (os_node out_socket) in
         bind (dict_lit []
           [(''type'', return (PStr ''separate'')),
            (''input'', bind (lift (input n ''Color'')) (\<lambda>s. conv_input tex n ''Color'')),
            (''mode'', return (PStr (if sattr n ''mode'' \<noteq> [] then lower (sattr n ''mode'') else ''xyz''))),
            (''component'', return (PStr (lower (os_name out_socket))))])
           (\<lambda>params. return (PDict params))))"

definition convert_gradient_node ::
  "ctx \<Rightarrow> graph \<Rightarrow> (socket \<Rightarrow> pyval res) \<Rightarrow> out_socket \<Rightarrow> pyval res" where
  "convert_gradient_node c g tex out_socket =
     (if \<not> enable_gradient c then dummy_color
      else
        (let n = g (os_node out_socket) in
         bind (dict_lit []
           [(''type'', return (PStr ''gradient'')),
            (''vector'', conv_input tex n ''Vector''),
            (''gradient type'',
               return (PStr (replace_char (CHR ''_'') (CHR '' '') (lower (sattr n ''gradient_type'')))))])
           (\<lambda>params. return (PDict params))))"

definition convert_math_node ::
  "ctx \<Rightarrow> graph \<Rightarrow> (socket \<Rightarrow> pyval res) \<Rightarrow> out_socket \<Rightarrow> pyval res" where
  "convert_math_node c g tex out_socket =
     (if \<not> enable_math c then dummy_color
      else
        (let n = g (os_node out_socket);
             params = [(''type'', PStr ''math''),
                       (''operation'', PStr (replace_char (CHR ''_'') (CHR '' '') (lower (sattr n ''operation'')))),
                       (''clamp'', attr n ''use_clamp'')]
         in
         bind (if length (inputs n) > 0
               then bind (bind (lift (input_at n 0)) tex) (\<lambda>a. return (dict_set params ''a'' a))
               else return params) (\<lambda>params.
         bind (if length (inputs n) > 1
               then bind (bind (lift (input_at n 1)) tex) (\<lambda>b. return (dict_set params ''b'' b))
               else return params) (\<lambda>params.
         bind (if length (inputs n) > 2
               then bind (bind (lift (input_at n 2)) tex) (\<lambda>cc. return (dict_set params ''c'' cc))
               else return params) (\<lambda>params.
         return (PDict params))))))"

definition texture_converters ::
  "(string \<times> (ctx \<Rightarrow> graph \<Rightarrow> (socket \<Rightarrow> pyval res) \<Rightarrow> out_socket \<Rightarrow> pyval res)) list" where
  "texture_converters =
     [(''ShaderNodeBlackbody'', convert_blackbody_node),
      (''ShaderNodeTexBrick'', convert_brick_texture_node),
      (''ShaderNodeClamp'', convert_clamp_node),
      (''ShaderNodeTexChecker'', convert_checker_texture_node),
      (''ShaderNodeTexCoord'', convert_coord_texture_node),
      (''ShaderNodeTexEnvironment'', convert_environment_texture_node),
      (''ShaderNodeMapping'', convert_mapping_node),
      (''ShaderNodeFresnel'', convert_fresnel_node),
      (''ShaderNodeTexImage'', convert_image_texture_node),
      (''ShaderNodeLayerWeight'', convert_layer_weight_node),
      (''ShaderNodeMixRGB'', convert_mix_rgb_node),
      (''ShaderNodeMix'', convert_mix_node),
      (''ShaderNodeTexMusgrave'', convert_musgrave_texture_node),
      (''ShaderNodeTexNoise'', convert_noise_texture_node),
      (''ShaderNodeRGB'', convert_rgb_node),
      (''ShaderNodeTexVoronoi'', convert_voronoi_texture_node),
      (''ShaderNodeTexWave'', convert_wave_texture_node),
      (''ShaderNodeWavelength'', convert_wavelength_node),
      (''ShaderNodeTexWhiteNoise'', convert_white_noise_texture_node),
      (''ShaderNodeWireframe'', convert_wireframe_texture_node),
      (''ShaderNodeLightPath'', convert_light_path_texture_node),
      (''ShaderNodeVertexColor'', convert_color_attrib_node),
      (''ShaderNodeValToRGB'', convert_val_to_rgb_node),
      (''ShaderNodeSeparateXYZ'', convert_separate_node),
      (''ShaderNodeSeparateColor'', convert_separate_node),
      (''ShaderNodeTexGradient'', convert_gradient_node),
      (''ShaderNodeMath'', convert_math_node)]"

text \<open>\<open>isinstance(params, Iterable)\<close>, \<open>"type" in params\<close> and \<open>params['type']\<close>\<close>

fun is_iterable :: "pyval \<Rightarrow> bool" where
  "is_iterable (PStr s) = True"
| "is_iterable (PTuple xs) = True"
| "is_iterable (PList xs) = True"
| "is_iterable (PDict d) = True"
| "is_iterable v = False"

fun contains_str :: "pyval \<Rightarrow> string \<Rightarrow> bool" where
  "contains_str (PDict d) k = dict_has d k"
| "contains_str (PList xs) k = list_ex (\<lambda>x. py_eq x (PStr k)) xs"
| "contains_str (PTuple xs) k = list_ex (\<lambda>x. py_eq x (PStr k)) xs"
| "contains_str (PStr s) k = list_ex (\<lambda>i. take (length k) (drop i s) = k) [0..<Suc (length s)]"
| "contains_str v k = False"

fun getitem :: "pyval \<Rightarrow> string \<Rightarrow> error + pyval" where
  "getitem (PDict d) k = dict_get d k"
| "getitem v k = Inl (TypeError ''indices must be integers'')"

text \<open>\<open>convert_texture_node\<close>: a call takes one level of the call depth.\<close>

primrec convert_texture_node :: "nat \<Rightarrow> ctx \<Rightarrow> graph \<Rightarrow> socket \<Rightarrow> pyval res" where
  "convert_texture_node 0 = (\<lambda>c g socket. raise RecursionError)"
| "convert_texture_node (Suc depth) = (\<lambda>c g socket.
     if is_linked socket then
       bind (lift (follow_link depth g socket)) (\<lambda>s.
       bind (lift (links0 s)) (\<lambda>l.
       let n = g (from_node l) in
       case map_of texture_converters (bl_idname n) of
         Some converter \<Rightarrow>
           bind (info c [PStr (''Converting a '' @ [CHR 0x27] @ bl_idname n @ [CHR 0x27]
                    @ '' Blender shader node.'')]) (\<lambda>u.
           bind (converter c g (convert_texture_node depth c g) (from_socket l)) (\<lambda>params.
           bind (if truthy params \<and> is_iterable params \<and> contains_str params ''type''
                 then bind (lift (getitem params ''type'')) (\<lambda>t.
                      info c [PStr (''  Created a '' @ [CHR 0x27]), t, PStr ([CHR 0x27] @ '' texture.'')])
                 else return ()) (\<lambda>u.
           return params)))
       | None \<Rightarrow>
           raise (NotImplementedError (''Shader node type '' @ bl_idname n @ '' is not supported''))))
     else lift (color (default_value socket)))"

section \<open>materials.py: surfaces\<close>

text \<open>
  A surface converter takes the graph, the socket resolver \<open>follow\<close>, the texture converter
  \<open>tex\<close> and the recursive \<open>cycles_surface_to_dict\<close> (without a name) as \<open>surf\<close>.
\<close>

type_synonym pydict = "(string \<times> pyval) list"

type_synonym surface_converter =
  "ctx \<Rightarrow> graph \<Rightarrow> (socket \<Rightarrow> error + socket) \<Rightarrow> (socket \<Rightarrow> pyval res) \<Rightarrow> (node \<Rightarrow> pydict res)
     \<Rightarrow> node \<Rightarrow> pydict res"

definition RoughnessMode :: "(string \<times> string) list" where
  "RoughnessMode =
     [(''GGX'', ''ggx''), (''BECKMANN'', ''beckmann''), (''ASHIKHMIN_SHIRLEY'', ''blinn''),
      (''MULTI_GGX'', ''ggx'')]"

definition make_two_sided :: "ctx \<Rightarrow> pydict \<Rightarrow> pydict res" where
  "make_two_sided c bsdf =
     (if force_two_sided c then
        bind (lift (dict_get bsdf ''type'')) (\<lambda>t.
        bind (info c [PStr (''  Wrapping '' @ [CHR 0x27]), t,
                      PStr ([CHR 0x27] @ '' material in a '' @ [CHR 0x27] @ ''two sided'' @ [CHR 0x27]
                        @ '' adapter.'')]) (\<lambda>u.
        return [(''type'', PStr ''two sided''), (''both sides'', PDict bsdf)]))
      else return bsdf)"

definition convert_diffuse_material :: surface_converter where
  "convert_diffuse_material c g follow tex surf n =
     bind (dict_lit []
       [(''type'', return (PStr ''diffuse'')),
        (''color'', conv_input tex n ''Color''),
        (''roughness'', conv_input tex n ''Roughness'')]) (\<lambda>params.
     make_two_sided c params)"

text \<open>\<open>roughness_to_blinn_exponent(pow(value, 2))\<close>: division by zero raises.\<close>

definition roughness_to_blinn_exponent :: "real \<Rightarrow> error + real" where
  "roughness_to_blinn_exponent alpha =
     (if alpha * alpha = 0 then Inl ZeroDivisionError
      else Inr (max (2.0 / (alpha * alpha) - 1.0) 0.0))"

definition convert_glossy_material :: surface_converter where
  "convert_glossy_material c g follow tex surf n =
     bind (conv_input tex n ''Roughness'') (\<lambda>roughness.
     bind
       (if glossy_mode c = ''rough conductor'' then
          bind (if sattr n ''distribution'' = ''SHARP'' then return True
                else bind (input_linked n ''Roughness'') (\<lambda>b.
                     if b then return False
                     else bind (input_default n ''Roughness'') (\<lambda>dv.
                          bind (lift (as_real dv)) (\<lambda>r. return (r \<le> 0))))) (\<lambda>sharp.
          bind (if sharp then return [(''type'', PStr ''conductor'')]
                else
                  bind (dict_lit []
                    [(''type'', return (PStr (glossy_mode c))),
                     (''distribution'',
                        bind (lookup RoughnessMode (sattr n ''distribution'')) (\<lambda>d. return (PStr d)))])
                    (\<lambda>params.
                  let params = dict_update params [(''roughness'', roughness)] in
                  bind (if has_input n ''Anisotropy''
                        then bind (conv_input tex n ''Anisotropy'') (\<lambda>a.
                             return (dict_update params [(''anisotropy'', a)]))
                        else return params) (\<lambda>params.
                  if has_input n ''Rotation''
                  then bind (conv_input tex n ''Rotation'') (\<lambda>r.
                       return (dict_update params [(''rotation'', r)]))
                  else return params))) (\<lambda>params.
          bind (conv_input tex n ''Color'') (\<lambda>col.
          return (dict_update params [(''color'', col)]))))
        else if glossy_mode c = ''blinn-phong'' \<or> glossy_mode c = ''phong'' then
          bind (input_linked n ''Roughness'') (\<lambda>b.
          if b then raise (NotImplementedError
             (''Phong and Blinn-Phong roughness parameter doesn'' @ [CHR 0x27]
                @ ''t support textures in Darts''))
          else
            bind (input_default n ''Roughness'') (\<lambda>dv.
            bind (lift (as_real dv)) (\<lambda>r.
            bind (lift (roughness_to_blinn_exponent (r ^ 2))) (\<lambda>e.
            let exponent = (if glossy_mode c = ''phong'' then e / 4 else e) in
            bind (if sattr n ''distribution'' = ''SHARP'' \<or> exponent \<le> 0
                  then return [(''type'', PStr ''metal''), (''roughness'', PInt 0)]
                  else dict_lit []
                    [(''type'', return (PStr (glossy_mode c))),
                     (''exponent'', return (PFloat exponent)),
                     (''distribution'',
                        bind (lookup RoughnessMode (sattr n ''distribution'')) (\<lambda>d. return (PStr d)))])
              (\<lambda>params.
            bind (conv_input tex n ''Color'') (\<lambda>col.
            return (dict_update params [(''color'', col)])))))))
        else if glossy_mode c = ''metal'' then
          dict_lit []
            [(''type'', return (PStr (glossy_mode c))),
             (''roughness'', if sattr n ''distribution'' \<noteq> ''SHARP''
                             then conv_input tex n ''Roughness'' else return (PInt 0)),
             (''color'', conv_input tex n ''Color'')]
        else return []) (\<lambda>params.
     make_two_sided c params))"

definition convert_glass_material :: surface_converter where
  "convert_glass_material c g follow tex surf n =
     bind (input_linked n ''IOR'') (\<lambda>b.
     bind (if b then report ''WARNING''
             [PStr (name n @ '': Textured IOR values are not supported in Darts. Using the default value instead.'')]
           else return ()) (\<lambda>u.
     bind (input_default n ''IOR'') (\<lambda>ior.
     bind (conv_input tex n ''Roughness'') (\<lambda>roughness.
     bind (if truthy roughness \<and> sattr n ''distribution'' \<noteq> ''SHARP''
           then dict_lit []
             [(''type'', return (PStr ''rough dielectric'')),
              (''roughness'', return roughness),
              (''distribution'',
                 bind (lookup RoughnessMode (sattr n ''distribution'')) (\<lambda>d. return (PStr d)))]
           else return [(''type'', PStr (if py_eq ior (PFloat 1.0) then ''thin dielectric'' else ''dielectric''))])
       (\<lambda>params.
     let params = dict_set params ''ior'' ior in
     bind (conv_input tex n ''Color'') (\<lambda>col.
     return (dict_set (dict_set params ''reflectance'' col) ''transmittance'' col)))))))"

definition convert_emission_material :: surface_converter where
  "convert_emission_material c g follow tex surf n =
     bind (input_linked n ''Strength'') (\<lambda>b.
     if b then raise (NotImplementedError ''Only default emitter strength value is supported'')
     else
       bind (input_default n ''Strength'') (\<lambda>strength.
       bind (input_linked n ''Color'') (\<lambda>b.
       if b then raise (NotImplementedError ''Only default emitter color is supported'')
       else
         bind (input_default n ''Color'') (\<lambda>col.
         bind (lift (slice_all col)) (\<lambda>sl.
         bind (lift (py_list sl)) (\<lambda>xs.
         bind (lift (map_err (\<lambda>x. py_mul x strength) xs)) (\<lambda>radiance.
         bind (lift (np_sum radiance)) (\<lambda>total.
         if total = 0 then
           bind (report ''WARN''
             [PStr (''  Emitter has zero emission, this may cause Darts to fail! Creating a ''
                @ [CHR 0x27] @ ''diffuse'' @ [CHR 0x27] @ '' material instead.'')]) (\<lambda>u.
           dict_lit [] [(''type'', return (PStr ''diffuse'')), (''color'', lift (color (PInt 0)))])
         else
           dict_lit []
             [(''type'', return (PStr ''emission'')),
              (''color'', lift (color (PList radiance)))]))))))))"

definition convert_transparent_material :: surface_converter where
  "convert_transparent_material c g follow tex surf n =
     dict_lit []
       [(''type'', return (PStr ''transparent'')),
        (''color'', conv_input tex n ''Color'')]"

text \<open>\<open>ctx.follow_link(socket).links[0].from_node\<close>\<close>

definition linked_node :: "graph \<Rightarrow> (socket \<Rightarrow> error + socket) \<Rightarrow> socket \<Rightarrow> node res" where
  "linked_node g follow s =
     bind (lift (follow s)) (\<lambda>s'. bind (lift (links0 s')) (\<lambda>l. return (g (from_node l))))"

definition convert_mix_material :: surface_converter where
  "convert_mix_material c g follow tex surf n =
     bind (lift (input_at n 1)) (\<lambda>s1.
     bind (if \<not> is_linked s1 then return True
           else bind (lift (input_at n 2)) (\<lambda>s2. return (\<not> is_linked s2))) (\<lambda>missing.
     if missing then raise (NotImplementedError ''Mix shader is not linked to two materials'')
     else
       bind (bind (lift (input_at n 1)) (linked_node g follow)) (\<lambda>mat_I.
       bind (bind (lift (input_at n 2)) (linked_node g follow)) (\<lambda>mat_II.
       dict_lit []
         [(''type'', return (PStr ''mix'')),
          (''factor'', conv_input tex n ''Fac''),
          (''a'', bind (surf mat_I) (\<lambda>d. return (PDict d))),
          (''b'', bind (surf mat_II) (\<lambda>d. return (PDict d)))]))))"

definition convert_add_material :: surface_converter where
  "convert_add_material c g follow tex surf n =
     bind (lift (input_at n 1)) (\<lambda>s1.
     bind (if \<not> is_linked s1 then return True
           else bind (lift (input_at n 2)) (\<lambda>s2. return (\<not> is_linked s2))) (\<lambda>missing.
     if missing then raise (NotImplementedError ''Add shader is not linked to two materials'')
     else
       bind (bind (lift (input_at n 1)) (linked_node g follow)) (\<lambda>mat_I.
       bind (bind (lift (input_at n 2)) (linked_node g follow)) (\<lambda>mat_II.
       dict_lit []
         [(''type'', return (PStr ''add'')),
          (''a'', bind (surf mat_I) (\<lambda>d. return (PDict d))),
          (''b'', bind (surf mat_II) (\<lambda>d. return (PDict d)))]))))"

text \<open>The end of \<open>wrap_with_bump_or_normal_map\<close>, common to both wrappers: the name moves
  from the nested material to the wrapper, which then takes the material as \<open>"nested"\<close>.\<close>

definition finish_wrap :: "ctx \<Rightarrow> pydict \<Rightarrow> pydict \<Rightarrow> pydict res" where
  "finish_wrap c nested wrapper =
     bind (if dict_has nested ''name''
           then bind (lift (dict_get nested ''name'')) (\<lambda>nmv.
                return (dict_set wrapper ''name'' nmv, dict_del nested ''name''))
           else return (wrapper, nested)) (\<lambda>wn.
     let wrapper = dict_set (fst wn) ''nested'' (PDict (snd wn)) in
     bind (lift (dict_get wrapper ''type'')) (\<lambda>t.
     bind (info c [PStr (''  Wrapping material with a '' @ [CHR 0x27]), t, PStr ([CHR 0x27] @ ''.'')])
       (\<lambda>u.
     return wrapper)))"

definition wrap_with_bump_or_normal_map ::
  "ctx \<Rightarrow> graph \<Rightarrow> (socket \<Rightarrow> error + socket) \<Rightarrow> (socket \<Rightarrow> pyval res) \<Rightarrow> node \<Rightarrow> pydict
     \<Rightarrow> pydict res" where
  "wrap_with_bump_or_normal_map c g follow tex n nested =
     bind (if (use_normal_maps c \<or> use_bump_maps c) \<and> has_input n ''Normal''
           then input_linked n ''Normal'' else return False) (\<lambda>applies.
     if applies then
       bind (bind (lift (input n ''Normal'')) (linked_node g follow)) (\<lambda>nm.
       if bl_idname nm = ''ShaderNodeNormalMap'' then
         (if \<not> use_normal_maps c then return nested
          else if sattr nm ''space'' \<noteq> ''TANGENT''
          then raise (NotImplementedError ''Darts only supports tangent-space normal maps'')
          else
            bind (dict_lit []
              [(''type'', return (PStr ''normal map'')),
               (''normals'', conv_input tex nm ''Color''),
               (''strength'', input_default nm ''Strength'')]) (finish_wrap c nested))
       else if bl_idname nm = ''ShaderNodeBump'' then
         (if \<not> use_bump_maps c then return nested
          else
            bind (dict_lit []
              [(''type'', return (PStr ''bump map'')),
               (''height'', conv_input tex nm ''Height''),
               (''strength'', conv_input tex nm ''Strength''),
               (''distance'', conv_input tex nm ''Distance''),
               (''invert'', return (attr nm ''invert''))]) (finish_wrap c nested))
       else raise (NotImplementedError
         (''Only normal map and bump nodes supported for '' @ [CHR 0x27] @ ''Normal''
            @ [CHR 0x27] @ '' input'')))
     else return nested)"

definition cycles_converters :: "(string \<times> surface_converter) list" where
  "cycles_converters =
     [(''ShaderNodeBsdfDiffuse'', convert_diffuse_material),
      (''ShaderNodeBsdfGlossy'', convert_glossy_material),
      (''ShaderNodeBsdfAnisotropic'', convert_glossy_material),
      (''ShaderNodeBsdfGlass'', convert_glass_material),
      (''ShaderNodeMixShader'', convert_mix_material),
      (''ShaderNodeAddShader'', convert_add_material),
      (''ShaderNodeEmission'', convert_emission_material),
      (''ShaderNodeBsdfTransparent'', convert_transparent_material)]"

text \<open>\<open>cycles_surface_to_dict(ctx, node, name)\<close>; \<open>name\<close> is \<open>None\<close> in the recursive calls.\<close>

primrec cycles_surface_to_dict :: "nat \<Rightarrow> ctx \<Rightarrow> graph \<Rightarrow> node \<Rightarrow> string option \<Rightarrow> pydict res" where
  "cycles_surface_to_dict 0 = (\<lambda>c g n nm. raise RecursionError)"
| "cycles_surface_to_dict (Suc depth) = (\<lambda>c g n nm.
     let params = (case nm of None \<Rightarrow> [] | Some x \<Rightarrow> [(''name'', PStr (material_name x))]) in
     case map_of cycles_converters (bl_idname n) of
       Some converter \<Rightarrow>
         bind (info c [PStr (''Converting a '' @ [CHR 0x27] @ bl_idname n @ [CHR 0x27]
                  @ '' Blender material.'')]) (\<lambda>u.
         bind (converter c g (follow_link depth g) (convert_texture_node depth c g)
                 (\<lambda>m. cycles_surface_to_dict depth c g m None) n) (\<lambda>d.
         let params = dict_update params d in
         bind (lift (dict_get params ''type'')) (\<lambda>t.
         bind (info c [PStr (''  Created a '' @ [CHR 0x27]), t, PStr ([CHR 0x27] @ '' material.'')]) (\<lambda>u.
         wrap_with_bump_or_normal_map c g (follow_link depth g) (convert_texture_node depth c g)
           n params))))
     | None \<Rightarrow>
         raise (NotImplementedError (''Node type: '' @ bl_idname n @ '' is not supported in Darts'')))"

section \<open>materials.py: volumes\<close>

definition convert_volume_scatter_node :: "ctx \<Rightarrow> node \<Rightarrow> pydict res" where
  "convert_volume_scatter_node c n =
     bind (input_linked n ''Color'') (\<lambda>b1.
     bind (if b1 then return True else input_linked n ''Density'') (\<lambda>b2.
     bind (if b2 then return True else input_linked n ''Anisotropy'') (\<lambda>b3.
     if b3 then raise (NotImplementedError
         ''Only homogeneous volume scattering nodes are currently supported'')
     else
       dict_lit []
         [(''type'', return (PStr ''homogeneous'')),
          (''albedo'', bind (input_default n ''Color'') (\<lambda>v. lift (color v))),
          (''total'', bind (input_default n ''Density'') (\<lambda>v. lift (color v))),
          (''real fraction'', return (PFloat 1.0)),
          (''phase function'',
             bind (input_default n ''Anisotropy'') (\<lambda>a.
             return (PDict [(''type'', PStr ''hg''), (''g'', a)])))])))"

text \<open>
  \<open>max(v)\<close> with a single argument iterates over it: a number is not iterable. (On a
  sequence the model takes the greatest number and raises on anything else.)
\<close>

fun max_numbers :: "pyval list \<Rightarrow> error + real" where
  "max_numbers [] = Inl (ValueError ''max() arg is an empty sequence'')"
| "max_numbers [x] = as_real x"
| "max_numbers (x # xs) =
     (case as_real x of
        Inl e \<Rightarrow> Inl e
      | Inr r \<Rightarrow> (case max_numbers xs of Inl e \<Rightarrow> Inl e | Inr t \<Rightarrow> Inr (max r t)))"

definition max1 :: "pyval \<Rightarrow> error + pyval" where
  "max1 v =
     (case py_list v of
        Inl e \<Rightarrow> Inl e
      | Inr xs \<Rightarrow> (case max_numbers xs of Inl e \<Rightarrow> Inl e | Inr r \<Rightarrow> Inr (PFloat r)))"

text \<open>\<open>max(1.0 - pow(max(x, 0.0), 0.5))\<close> for one channel \<open>x\<close>\<close>

definition absorption_total :: "pyval \<Rightarrow> error + pyval" where
  "absorption_total x =
     (case as_real x of
        Inl e \<Rightarrow> Inl e
      | Inr r \<Rightarrow> max1 (PFloat (1.0 - sqrt (max r 0.0))))"

definition convert_volume_absorption_node :: "ctx \<Rightarrow> node \<Rightarrow> pydict res" where
  "convert_volume_absorption_node c n =
     bind (input_linked n ''Color'') (\<lambda>b1.
     bind (if b1 then return True else input_linked n ''Density'') (\<lambda>b2.
     if b2 then raise (NotImplementedError
         ''Only homogeneous volume absorption nodes are currently supported'')
     else
       dict_lit []
         [(''type'', return (PStr ''homogeneous'')),
          (''albedo'', return (PInt 0)),
          (''total'',
             bind (input_default n ''Color'') (\<lambda>col.
             bind (lift (slice_all col)) (\<lambda>sl.
             bind (lift (py_list sl)) (\<lambda>xs.
             bind (lift (map_err absorption_total xs)) (\<lambda>ts. return (PList ts)))))),
          (''real fraction'', return (PFloat 1.0)),
          (''phase function'', return (PDict [(''type'', PStr ''isotropic'')]))]))"

text \<open>
  The arrays of \<open>convert_volume_vdb_node\<close>: a colour is a number or a list of numbers, and
  numpy combines two of them element by element, a number with every element of a list.
\<close>

definition np_map2 :: "(real \<Rightarrow> real \<Rightarrow> real) \<Rightarrow> pyval \<Rightarrow> pyval \<Rightarrow> error + pyval" where
  "np_map2 f a b =
     (case a of
        PList xs \<Rightarrow>
          (case map_err as_real xs of
             Inl e \<Rightarrow> Inl e
           | Inr rs \<Rightarrow>
               (case b of
                  PList ys \<Rightarrow>
                    (if length xs \<noteq> length ys
                     then Inl (ValueError ''operands could not be broadcast together'')
                     else
                       (case map_err as_real ys of
                          Inl e \<Rightarrow> Inl e
                        | Inr ts \<Rightarrow> Inr (PList (map (\<lambda>p. PFloat (f (fst p) (snd p))) (zip rs ts)))))
                | _ \<Rightarrow>
                    (case as_real b of
                       Inl e \<Rightarrow> Inl e
                     | Inr t \<Rightarrow> Inr (PList (map (\<lambda>r. PFloat (f r t)) rs)))))
      | _ \<Rightarrow>
          (case as_real a of
             Inl e \<Rightarrow> Inl e
           | Inr r \<Rightarrow>
               (case b of
                  PList ys \<Rightarrow>
                    (case map_err as_real ys of
                       Inl e \<Rightarrow> Inl e
                     | Inr ts \<Rightarrow> Inr (PList (map (\<lambda>t. PFloat (f r t)) ts)))
                | _ \<Rightarrow>
                    (case as_real b of
                       Inl e \<Rightarrow> Inl e
                     | Inr t \<Rightarrow> Inr (PFloat (f r t))))))"

definition convert_volume_vdb_node :: "ctx \<Rightarrow> node \<Rightarrow> pydict res" where
  "convert_volume_vdb_node c n =
     bind (info c [PStr ''Converting vdb node'']) (\<lambda>u.
     bind (input_linked n ''Color'') (\<lambda>b1.
     bind (if b1 then return True else input_linked n ''Density'') (\<lambda>b2.
     bind (if b2 then return True else input_linked n ''Absorption Color'') (\<lambda>b3.
     if b3 then raise (NotImplementedError
         ''Textured density, color, or absorption colors are not supported by the nanovdb medium'')
     else
       bind (bind (input_default n ''Color'') (\<lambda>v. lift (color v))) (\<lambda>scatter_color.
       bind (bind (input_default n ''Absorption Color'') (\<lambda>v. lift (color v))) (\<lambda>absorption_color.
       bind (lift (np_map2 (\<lambda>s a. max (1.0 - s) 0.0 * max (1.0 - a) 0.0) scatter_color absorption_color))
         (\<lambda>absorption_coeff.
       bind (dict_lit []
         [(''type'', return (PStr ''nanovdb'')),
          (''density'', input_default n ''Density''),
          (''sigma_s'', return scatter_color),
          (''sigma_a'', return absorption_coeff),
          (''phase function'',
             bind (input_default n ''Anisotropy'') (\<lambda>a.
             return (PDict [(''type'', PStr ''hg''), (''g'', a)])))]) (\<lambda>params.
       bind (input_default n ''Density Attribute'') (\<lambda>grid.
       return (dict_set params ''gridname'' grid))))))))))"

definition cycles_volume_converters :: "(string \<times> (ctx \<Rightarrow> node \<Rightarrow> pydict res)) list" where
  "cycles_volume_converters =
     [(''ShaderNodeVolumeScatter'', convert_volume_scatter_node),
      (''ShaderNodeVolumeAbsorption'', convert_volume_absorption_node),
      (''ShaderNodeVolumePrincipled'', convert_volume_vdb_node)]"

definition cycles_volume_to_dict :: "ctx \<Rightarrow> node \<Rightarrow> string option \<Rightarrow> pydict res" where
  "cycles_volume_to_dict c n nm =
     bind (info c [PStr ''Adding volume'']) (\<lambda>u.
     let params = (case nm of None \<Rightarrow> [] | Some x \<Rightarrow> [(''name'', PStr (material_name x))]) in
     case map_of cycles_volume_converters (bl_idname n) of
       Some converter \<Rightarrow>
         bind (info c [PStr (''Converting a '' @ [CHR 0x27] @ bl_idname n @ [CHR 0x27]
                  @ '' Blender volume.'')]) (\<lambda>u.
         bind (converter c n) (\<lambda>d.
         let params = dict_update params d in
         bind (lift (dict_get params ''type'')) (\<lambda>t.
         bind (info c [PStr (''  Created a '' @ [CHR 0x27]), t, PStr ([CHR 0x27] @ '' medium.'')]) (\<lambda>u.
         return params))))
     | None \<Rightarrow>
         raise (NotImplementedError (''Node type: '' @ bl_idname n @ '' is not supported in Darts'')))"

section \<open>materials.py: materials and the export loop\<close>

text \<open>
  A Blender material: its node tree is the store \<open>node_tree\<close>, and \<open>nodes\<close> are the nodes
  of the tree by name. A mesh object has no data, or data with a list of material slots, of
  which some may be empty.
\<close>

record material =
  name_full :: string
  users :: int
  use_nodes :: bool
  diffuse_color :: pyval
  node_tree :: graph
  nodes :: "(string \<times> node) list"

record mesh =
  mesh_name_full :: string
  mesh_type :: string
  data_materials :: "material option list option"

definition get_dummy_material :: "string option \<Rightarrow> pydict res" where
  "get_dummy_material nm =
     bind (dict_lit []
       [(''type'', return (PStr ''diffuse'')),
        (''color'', lift (color (PList [PFloat 1.0, PFloat 0.0, PFloat 0.3])))]) (\<lambda>params.
     case nm of
       None \<Rightarrow> return params
     | Some x \<Rightarrow> return (dict_set params ''name'' (PStr (material_name x))))"

text \<open>
  The body of the \<open>try\<close> of \<open>convert_material\<close>, statement by statement: the surface,
  which gives \<open>mat_params\<close>; the volume, which gives \<open>media_params\<close> and the
  \<open>"interior medium"\<close> of \<open>mat_params\<close>; the warning about displacement. Nothing can raise
  once \<open>media_params\<close> is assigned, so \<open>media_params\<close> is still \<open>None\<close> whenever the
  handler runs.
\<close>

definition material_surface :: "nat \<Rightarrow> ctx \<Rightarrow> material \<Rightarrow> node \<Rightarrow> pydict res" where
  "material_surface depth c b_mat output_node =
     (let g = node_tree b_mat in
      bind (if has_input output_node ''Surface'' then input_linked output_node ''Surface''
            else return False) (\<lambda>surface.
      if surface then
        bind (bind (lift (input output_node ''Surface'')) (linked_node g (follow_link depth g)))
          (\<lambda>surface_node.
        cycles_surface_to_dict depth c g surface_node (Some (name_full b_mat)))
      else return [(''type'', PStr ''transparent'')]))"

definition material_volume :: "nat \<Rightarrow> ctx \<Rightarrow> material \<Rightarrow> node \<Rightarrow> pydict \<Rightarrow> (pydict \<times> pyval) res" where
  "material_volume depth c b_mat output_node mat_params =
     (let g = node_tree b_mat in
      bind (if has_input output_node ''Volume'' then input_linked output_node ''Volume''
            else return False) (\<lambda>volume.
      if volume then
        bind (bind (lift (input output_node ''Volume'')) (linked_node g (follow_link depth g)))
          (\<lambda>volume_node.
        let medium_name = name_full b_mat @ '' volume'' in
        bind (cycles_volume_to_dict c volume_node (Some medium_name)) (\<lambda>media_params.
        return (dict_set mat_params ''interior medium'' (PStr medium_name), PDict media_params)))
      else return (mat_params, PNone)))"

definition material_displacement :: "material \<Rightarrow> node \<Rightarrow> unit res" where
  "material_displacement b_mat output_node =
     bind (if has_input output_node ''Displacement'' then input_linked output_node ''Displacement''
           else return False) (\<lambda>displacement.
     if displacement then report ''WARNING''
       [PStr (''Material '' @ [CHR 0x27] @ name_full b_mat @ [CHR 0x27]
          @ '': Displacement maps are not supported. Consider converting them to bump maps first'')]
     else return ())"

definition convert_material_try :: "nat \<Rightarrow> ctx \<Rightarrow> material \<Rightarrow> (pydict \<times> pyval) res" where
  "convert_material_try depth c b_mat =
     (case map_of (nodes b_mat) ''Material Output'' of
        None \<Rightarrow> raise (NotImplementedError ''Cannot find material output node'')
      | Some output_node \<Rightarrow>
          bind (material_surface depth c b_mat output_node) (\<lambda>mat_params.
          bind (material_volume depth c b_mat output_node mat_params) (\<lambda>both.
          bind (material_displacement b_mat output_node) (\<lambda>u.
          return both))))"

text \<open>\<open>try: ... except NotImplementedError as e: ...\<close>: the reports made before the exception
  stay, the handler runs for a \<open>NotImplementedError\<close> and for no other exception.\<close>

definition catch_NotImplementedError :: "'a res \<Rightarrow> (string \<Rightarrow> 'a res) \<Rightarrow> 'a res" where
  "catch_NotImplementedError m handler =
     (case m of
        (l1, Inl (NotImplementedError msg)) \<Rightarrow> (case handler msg of (l2, r) \<Rightarrow> (l1 @ l2, r))
      | (l1, r) \<Rightarrow> (l1, r))"

definition convert_material :: "nat \<Rightarrow> ctx \<Rightarrow> material \<Rightarrow> (pydict \<times> pyval) res" where
  "convert_material depth c b_mat =
     (if use_nodes b_mat then
        catch_NotImplementedError (convert_material_try depth c b_mat) (\<lambda>msg.
          bind (report ''WARNING''
            [PStr (''Export of material '' @ [CHR 0x27] @ name_full b_mat @ [CHR 0x27] @ '' failed: ''
               @ msg @ ''. Exporting a dummy material instead.'')]) (\<lambda>u.
          bind (get_dummy_material (Some (name_full b_mat))) (\<lambda>mat_params.
          return (mat_params, PNone))))
      else
        bind (get_dummy_material (Some (name_full b_mat))) (\<lambda>mat_params.
        bind (lift (color (diffuse_color b_mat))) (\<lambda>col.
        return (dict_update mat_params [(''color'', col)], PNone))))"

text \<open>
  The state of the export loop: the output lists \<open>materials\<close> and \<open>media\<close>, and the cache
  \<open>ctx.already_exported\<close>, a dict from keys to descriptors.
\<close>

record export_state =
  materials :: "pyval list"
  media :: "pyval list"
  already_exported :: pydict

text \<open>The body of the inner loop of the \<open>CONVERT\<close> mode, for one material slot.\<close>

definition export_material :: "nat \<Rightarrow> ctx \<Rightarrow> export_state \<Rightarrow> material option \<Rightarrow> export_state res" where
  "export_material depth c st slot =
     (case slot of
        None \<Rightarrow> return st
      | Some mat \<Rightarrow>
          if name_full mat = ''Dots Stroke'' \<or> users mat = 0 then
            bind (info c [PStr (''Skipping unused material '' @ [CHR 0x27] @ name_full mat @ [CHR 0x27])])
              (\<lambda>u. return st)
          else
            (let mat_id = ''mat-'' @ name_full mat in
             if dict_has (already_exported st) mat_id then
               bind (info c [PStr (''Skipping previously exported material '' @ [CHR 0x27]
                        @ name_full mat @ [CHR 0x27] @ ''.'')]) (\<lambda>u. return st)
             else
               bind (info c [PStr (''Exporting material '' @ [CHR 0x27] @ name_full mat @ [CHR 0x27]
                        @ '', with ''), PInt (users mat), PStr '' users.'']) (\<lambda>u.
               bind (convert_material depth c mat) (\<lambda>r.
               let mat_params = fst r; media_params = snd r in
               return
                 \<lparr>materials = materials st @ [PDict mat_params],
                  media = (if truthy media_params then media st @ [media_params] else media st),
                  already_exported = dict_set (already_exported st) mat_id (PDict mat_params)\<rparr>))))"

fun export_materials :: "nat \<Rightarrow> ctx \<Rightarrow> export_state \<Rightarrow> material option list \<Rightarrow> export_state res" where
  "export_materials depth c st [] = return st"
| "export_materials depth c st (slot # slots) =
     bind (export_material depth c st slot) (\<lambda>st'. export_materials depth c st' slots)"

fun export_meshes :: "nat \<Rightarrow> ctx \<Rightarrow> export_state \<Rightarrow> mesh list \<Rightarrow> export_state res" where
  "export_meshes depth c st [] = return st"
| "export_meshes depth c st (m # meshes) =
     (case data_materials m of
        None \<Rightarrow> export_meshes depth c st meshes
      | Some slots \<Rightarrow>
          if slots = [] then export_meshes depth c st meshes
          else
            bind (info c [PStr (''Object '' @ [CHR 0x27] @ mesh_name_full m @ [CHR 0x27] @ '' of type ''
                     @ [CHR 0x27] @ mesh_type m @ [CHR 0x27] @ '' has ''), PInt (int (length slots)),
                     PStr '' materials.'']) (\<lambda>u.
            bind (export_materials depth c st slots) (\<lambda>st'.
            export_meshes depth c st' meshes)))"

text \<open>The loop of the \<open>DIFFUSE\<close> mode over \<open>bpy.data.materials\<close>.\<close>

fun export_placeholders :: "ctx \<Rightarrow> pyval list \<Rightarrow> material list \<Rightarrow> pyval list res" where
  "export_placeholders c mats [] = return mats"
| "export_placeholders c mats (mat # ms) =
     (if name_full mat = ''Dots Stroke'' \<or> users mat = 0 then export_placeholders c mats ms
      else
        bind (info c [PStr (''Writing placeholder for material '' @ [CHR 0x27] @ name_full mat
                 @ [CHR 0x27])]) (\<lambda>u.
        bind (get_dummy_material (Some (name_full mat))) (\<lambda>params.
        export_placeholders c (mats @ [PDict params]) ms)))"

text \<open>
  \<open>export(ctx, meshes)\<close>. \<open>bpy_data_materials\<close> is \<open>bpy.data.materials\<close>; the cache is passed
  in and returned. The result is \<open>materials\<close>, \<open>media\<close> and the cache.
\<close>

definition export ::
  "nat \<Rightarrow> ctx \<Rightarrow> material list \<Rightarrow> pydict \<Rightarrow> mesh list \<Rightarrow> export_state res" where
  "export depth c bpy_data_materials cache meshes =
     bind (info c [PStr ''Writing default diffuse material'']) (\<lambda>u.
     let st = \<lparr>materials = [PDict [(''type'', PStr ''diffuse''), (''name'', PStr ''default''),
                                     (''color'', PFloat 0.2)]],
               media = [], already_exported = cache\<rparr> in
     if material_mode c = ''DIFFUSE'' then
       bind (export_placeholders c (materials st) bpy_data_materials) (\<lambda>mats.
       return (st\<lparr>materials := mats\<rparr>))
     else if material_mode c = ''CONVERT'' then export_meshes depth c st meshes
     else return st)"

section \<open>Predicates of the properties\<close>

text \<open>An input socket of a node is connected: the node has it and it is linked.\<close>

definition input_connected :: "node \<Rightarrow> string \<Rightarrow> bool" where
  "input_connected n k = (case map_of (inputs n) k of None \<Rightarrow> False | Some s \<Rightarrow> is_linked s)"


text \<open>
  The export of materials as a specification: the key of a material in the cache; the
  material slots of the meshes in the order the export loop visits them; the materials that
  are met for the first time, that is the slots that are not empty, not unused (the
  \<open>Dots Stroke\<close> material or a material without users) and whose key is neither in the cache
  at the start (\<open>seen\<close>) nor the key of an earlier such slot; and the descriptor to which a
  material converts.
\<close>

definition mat_key :: "material \<Rightarrow> string" where
  "mat_key mat = ''mat-'' @ name_full mat"

fun all_slots :: "mesh list \<Rightarrow> material option list" where
  "all_slots [] = []"
| "all_slots (m # meshes) =
     (case data_materials m of None \<Rightarrow> all_slots meshes | Some slots \<Rightarrow> slots @ all_slots meshes)"

fun first_uses :: "string list \<Rightarrow> material option list \<Rightarrow> material list" where
  "first_uses seen [] = []"
| "first_uses seen (None # slots) = first_uses seen slots"
| "first_uses seen (Some mat # slots) =
     (if name_full mat = ''Dots Stroke'' \<or> users mat = 0 \<or> mat_key mat \<in> set seen
      then first_uses seen slots
      else mat # first_uses (mat_key mat # seen) slots)"

definition converted :: "nat \<Rightarrow> ctx \<Rightarrow> material \<Rightarrow> pyval" where
  "converted depth c mat =
     (case snd (convert_material depth c mat) of Inl e \<Rightarrow> PNone | Inr r \<Rightarrow> PDict (fst r))"

section \<open>Example scenes\<close>

text \<open>
  Concrete contexts, sockets and nodes on which the definitions above are evaluated.
  \<open>\<pi>\<close> and square roots are not evaluated: the two definitions that use them are kept
  out of the code equations.
\<close>

declare degrees_def [code del]

declare absorption_total_def [code del]

definition example_ctx :: ctx where
  "example_ctx =
     \<lparr>verbose = False, write_texture_files = False, material_mode = ''CONVERT'',
      glossy_mode = ''rough conductor'', use_normal_maps = True, use_bump_maps = True,
      force_two_sided = True, enable_blackbody = True, enable_brick = True,
      enable_checker = True, enable_clamp = True, enable_color_ramp = True, enable_coord = True,
      enable_fresnel = True, enable_gradient = True, enable_layer_weight = True,
      enable_mapping = True, enable_math = True, enable_musgrave = True, enable_mix_rgb = True,
      enable_mix_node = True, enable_noise = True, enable_separate = True, enable_voronoi = True,
      enable_wave = True, enable_wavelength = True, enable_wireframe = True,
      os_path_basename = (\<lambda>s. s), os_path_splitext = (\<lambda>s. (s, []))\<rparr>"

definition unlinked :: "pyval \<Rightarrow> socket" where
  "unlinked v = \<lparr>links = [], default_value = v\<rparr>"

definition linked_to :: "nat \<Rightarrow> string \<Rightarrow> socket" where
  "linked_to i out =
     \<lparr>links = [\<lparr>from_node = i, from_socket = \<lparr>os_node = i, os_name = out\<rparr>\<rparr>],
      default_value = PNone\<rparr>"

definition example_node :: "string \<Rightarrow> (string \<times> socket) list \<Rightarrow> (string \<times> string) list \<Rightarrow> node" where
  "example_node idname ins props =
     \<lparr>bl_idname = idname, name = idname, inputs = ins,
      sattr = (\<lambda>k. case map_of props k of None \<Rightarrow> [] | Some v \<Rightarrow> v),
      attr = (\<lambda>k. PNone), color_ramp_elements = []\<rparr>"

text \<open>
  A graph for the socket resolver: node 0 is a diffuse shader; node 1 is a reroute node fed by
  node 0; node 2 is a reroute node fed by node 1; every other node is a reroute node fed by
  itself.
\<close>

definition reroute_graph :: graph where
  "reroute_graph = (\<lambda>i.
     if i = 0 then example_node ''ShaderNodeBsdfDiffuse''
                     [(''Color'', unlinked (PTuple [PFloat 0.8, PFloat 0.8, PFloat 0.8, PFloat 1.0])),
                      (''Roughness'', unlinked (PFloat 0.0))] []
     else if i = 1 then example_node ''NodeReroute'' [(''Input'', linked_to 0 ''BSDF'')] []
     else if i = 2 then example_node ''NodeReroute'' [(''Input'', linked_to 1 ''Output'')] []
     else example_node ''NodeReroute'' [(''Input'', linked_to i ''Output'')] [])"

text \<open>A context with every capability flag of the texture converters switched off.\<close>

definition disabled_ctx :: ctx where
  "disabled_ctx =
     example_ctx
       \<lparr>enable_blackbody := False, enable_brick := False, enable_checker := False,
        enable_clamp := False, enable_color_ramp := False, enable_coord := False,
        enable_fresnel := False, enable_gradient := False, enable_layer_weight := False,
        enable_mapping := False, enable_math := False, enable_musgrave := False,
        enable_mix_rgb := False, enable_mix_node := False, enable_noise := False,
        enable_separate := False, enable_voronoi := False, enable_wave := False,
        enable_wavelength := False, enable_wireframe := False\<rparr>"

text \<open>
  A graph of textures: node 0 is a 4D noise texture whose \<open>Vector\<close> comes from the texture
  coordinates (node 4); node 1 is a 1D white noise; node 2 is a 3D Voronoi texture without
  a vector; node 3 is a 2D Musgrave texture whose \<open>Vector\<close> comes from node 4; node 5 is a
  mapping node; every other node is a texture coordinate node.
\<close>

definition texture_graph :: graph where
  "texture_graph = (\<lambda>i.
     if i = 0 then example_node ''ShaderNodeTexNoise''
       [(''Vector'', linked_to 4 ''Generated''), (''W'', unlinked (PFloat 0.0)),
        (''Scale'', unlinked (PFloat 5.0)), (''Detail'', unlinked (PFloat 2.0)),
        (''Roughness'', unlinked (PFloat 0.5)), (''Lacunarity'', unlinked (PFloat 2.0)),
        (''Distortion'', unlinked (PFloat 0.0))]
       [(''noise_dimensions'', ''4D'')]
     else if i = 1 then example_node ''ShaderNodeTexWhiteNoise''
       [(''Vector'', unlinked (PTuple [PFloat 0.0, PFloat 0.0, PFloat 0.0])),
        (''W'', unlinked (PFloat 0.25))]
       [(''noise_dimensions'', ''1D'')]
     else if i = 2 then example_node ''ShaderNodeTexVoronoi''
       [(''Vector'', unlinked (PTuple [PFloat 0.0, PFloat 0.0, PFloat 0.0])),
        (''W'', unlinked (PFloat 0.0)), (''Scale'', unlinked (PFloat 5.0)),
        (''Smoothness'', unlinked (PFloat 1.0)), (''Randomness'', unlinked (PFloat 1.0))]
       [(''voronoi_dimensions'', ''3D''), (''feature'', ''F1''), (''distance'', ''EUCLIDEAN'')]
     else if i = 3 then example_node ''ShaderNodeTexMusgrave''
       [(''Vector'', linked_to 4 ''UV''), (''W'', unlinked (PFloat 0.0)),
        (''Scale'', unlinked (PFloat 5.0)), (''Detail'', unlinked (PFloat 2.0)),
        (''Dimension'', unlinked (PFloat 2.0)), (''Lacunarity'', unlinked (PFloat 2.0)),
        (''Offset'', unlinked (PFloat 0.0)), (''Gain'', unlinked (PFloat 1.0))]
       [(''noise_dimensions'', ''2D''), (''musgrave_type'', ''FBM'')]
     else if i = 5 then example_node ''ShaderNodeMapping''
       [(''Vector'', linked_to 4 ''UV''),
        (''Location'', unlinked (PTuple [PFloat 0.0, PFloat 0.0, PFloat 0.0])),
        (''Rotation'', unlinked (PTuple [PFloat 0.0, PFloat 0.0, PFloat 0.0])),
        (''Scale'', unlinked (PTuple [PFloat 1.0, PFloat 1.0, PFloat 1.0]))]
       [(''vector_type'', ''POINT'')]
     else example_node ''ShaderNodeTexCoord'' [] [])"

text \<open>
  A graph of shaders: node 0 is a diffuse shader with a normal map (node 1) on its
  \<open>Normal\<close> input; node 2 is a glass shader with roughness 0 and IOR 1; node 3 is a glass
  shader with roughness 0.2 and IOR 1.5; node 4 is an emission shader of strength 2; node 5
  is an emission shader of strength 1 whose colour is black with alpha 1; node 6 is an
  emission shader of strength 0; node 7 is a glossy shader with a bump node (node 8) on its
  \<open>Normal\<close> input; every other node is a texture coordinate node.
\<close>

definition surface_graph :: graph where
  "surface_graph = (\<lambda>i.
     if i = 0 then example_node ''ShaderNodeBsdfDiffuse''
       [(''Color'', unlinked (PTuple [PFloat 0.8, PFloat 0.8, PFloat 0.8, PFloat 1.0])),
        (''Roughness'', unlinked (PFloat 0.0)), (''Normal'', linked_to 1 ''Normal'')] []
     else if i = 1 then example_node ''ShaderNodeNormalMap''
       [(''Strength'', unlinked (PFloat 1.0)),
        (''Color'', unlinked (PTuple [PFloat 0.5, PFloat 0.5, PFloat 1.0, PFloat 1.0]))]
       [(''space'', ''TANGENT'')]
     else if i = 2 then example_node ''ShaderNodeBsdfGlass''
       [(''Color'', unlinked (PTuple [PFloat 1.0, PFloat 1.0, PFloat 1.0, PFloat 1.0])),
        (''Roughness'', unlinked (PFloat 0.0)), (''IOR'', unlinked (PFloat 1.0))]
       [(''distribution'', ''BECKMANN'')]
     else if i = 3 then example_node ''ShaderNodeBsdfGlass''
       [(''Color'', unlinked (PTuple [PFloat 1.0, PFloat 1.0, PFloat 1.0, PFloat 1.0])),
        (''Roughness'', unlinked (PFloat 0.2)), (''IOR'', unlinked (PFloat 1.5))]
       [(''distribution'', ''BECKMANN'')]
     else if i = 4 then example_node ''ShaderNodeEmission''
       [(''Color'', unlinked (PTuple [PFloat 1.0, PFloat 0.5, PFloat 0.0, PFloat 1.0])),
        (''Strength'', unlinked (PFloat 2.0))] []
     else if i = 5 then example_node ''ShaderNodeEmission''
       [(''Color'', unlinked (PTuple [PFloat 0.0, PFloat 0.0, PFloat 0.0, PFloat 1.0])),
        (''Strength'', unlinked (PFloat 1.0))] []
     else if i = 6 then example_node ''ShaderNodeEmission''
       [(''Color'', unlinked (PTuple [PFloat 1.0, PFloat 1.0, PFloat 1.0, PFloat 1.0])),
        (''Strength'', unlinked (PFloat 0.0))] []
     else if i = 7 then example_node ''ShaderNodeBsdfGlossy''
       [(''Color'', unlinked (PTuple [PFloat 0.8, PFloat 0.8, PFloat 0.8, PFloat 1.0])),
        (''Roughness'', unlinked (PFloat 0.5)), (''Normal'', linked_to 8 ''Normal'')]
       [(''distribution'', ''GGX'')]
     else if i = 8 then example_node ''ShaderNodeBump''
       [(''Strength'', unlinked (PFloat 1.0)), (''Distance'', unlinked (PFloat 1.0)),
        (''Height'', unlinked (PFloat 1.0))] []
     else example_node ''ShaderNodeTexCoord'' [] [])"

text \<open>
  A node tree for materials: node 0 is a volume absorption node; node 1 is a principled
  shader, a kind that has no converter; node 2 is a diffuse shader whose colour has only two
  channels; node 3 is a diffuse shader; every other node is a texture coordinate node.
  A material's output node takes its \<open>Surface\<close> and \<open>Volume\<close> sockets as given.
\<close>

definition material_graph :: graph where
  "material_graph = (\<lambda>i.
     if i = 0 then example_node ''ShaderNodeVolumeAbsorption''
       [(''Color'', unlinked (PTuple [PFloat 0.8, PFloat 0.8, PFloat 0.8, PFloat 1.0])),
        (''Density'', unlinked (PFloat 1.0))] []
     else if i = 1 then example_node ''ShaderNodeBsdfPrincipled''
       [(''Base Color'', unlinked (PTuple [PFloat 0.8, PFloat 0.8, PFloat 0.8, PFloat 1.0]))] []
     else if i = 2 then example_node ''ShaderNodeBsdfDiffuse''
       [(''Color'', unlinked (PTuple [PFloat 0.8, PFloat 0.8])),
        (''Roughness'', unlinked (PFloat 0.0))] []
     else if i = 3 then example_node ''ShaderNodeBsdfDiffuse''
       [(''Color'', unlinked (PTuple [PFloat 0.8, PFloat 0.1, PFloat 0.1, PFloat 1.0])),
        (''Roughness'', unlinked (PFloat 0.0))] []
     else example_node ''ShaderNodeTexCoord'' [] [])"

definition output_node :: "socket \<Rightarrow> socket \<Rightarrow> node" where
  "output_node surface volume =
     example_node ''ShaderNodeOutputMaterial''
       [(''Surface'', surface), (''Volume'', volume), (''Displacement'', unlinked PNone)] []"

definition example_material :: "string \<Rightarrow> node \<Rightarrow> material" where
  "example_material nm out =
     \<lparr>name_full = nm, users = 1, use_nodes = True,
      diffuse_color = PTuple [PFloat 0.8, PFloat 0.8, PFloat 0.8, PFloat 1.0],
      node_tree = material_graph, nodes = [(''Material Output'', out)]\<rparr>"

definition fog_material :: material where
  "fog_material = example_material ''Fog'' (output_node (unlinked PNone) (linked_to 0 ''Volume''))"

definition principled_material :: material where
  "principled_material =
     example_material ''Car Paint'' (output_node (linked_to 1 ''BSDF'') (unlinked PNone))"

definition malformed_material :: material where
  "malformed_material =
     example_material ''Two Channels'' (output_node (linked_to 2 ''BSDF'') (unlinked PNone))"

definition paint_material :: material where
  "paint_material =
     example_material ''Red Paint'' (output_node (linked_to 3 ''BSDF'') (unlinked PNone))"

definition example_mesh :: "string \<Rightarrow> material option list \<Rightarrow> mesh" where
  "example_mesh nm slots = \<lparr>mesh_name_full = nm, mesh_type = ''MESH'', data_materials = Some slots\<rparr>"

text \<open>Two meshes that share their two materials; the first also has an empty slot.\<close>

definition example_meshes :: "mesh list" where
  "example_meshes =
     [example_mesh ''Cube'' [Some paint_material, None, Some principled_material],
      example_mesh ''Sphere'' [Some paint_material, Some principled_material]]"

section \<open>Properties of the value normalizer\<close>

lemma py_list_not_number: "py_list v = Inr xs \<Longrightarrow> \<not> is_number v"
  by (cases v) auto

lemma same_type_not_mixed: "(\<forall>x\<in>set xs. py_type x = t) \<Longrightarrow> \<not> mixed_types xs"
  by (induction xs rule: mixed_types.induct) auto

lemma color_number: "is_number v \<Longrightarrow> color v = Inr v"
  by (simp add: color_def)

lemma color_single:
  assumes "py_list v = Inr [x]" "is_number x"
  shows "color v = Inr x"
  using assms py_list_not_number[OF assms(1)] by (simp add: color_def)

lemma color_three_or_four:
  assumes "py_list v = Inr xs" "\<forall>x\<in>set xs. is_number x" "\<not> mixed_types xs"
    "length xs = 3 \<or> length xs = 4"
  shows "color v = Inr (PList (take 3 xs))"
proof -
  from assms(4) obtain x rest where xs: "xs = x # rest" by (cases xs) auto
  have "\<not> list_ex (\<lambda>x. \<not> (is_number x \<or> py_type x = TTuple)) xs"
    using assms(2) by (simp add: list_ex_iff)
  moreover have "is_number x" using assms(2) xs by simp
  ultimately show ?thesis
    using assms py_list_not_number[OF assms(1)] xs by (simp add: color_def)
qed

lemma color_mixed:
  assumes "py_list v = Inr xs" "mixed_types xs"
  shows "\<exists>m. color v = Inl (ValueError m)"
  using assms py_list_not_number[OF assms(1)] by (simp add: color_def)

lemma color_bad_length:
  assumes "py_list v = Inr xs" "\<forall>x\<in>set xs. is_number x" "length xs \<notin> {1, 3, 4}"
  shows "\<exists>e. color v = Inl e"
proof (cases xs)
  case Nil
  then show ?thesis using assms py_list_not_number[OF assms(1)] by (simp add: color_def)
next
  case (Cons x rest)
  have "\<not> list_ex (\<lambda>x. \<not> (is_number x \<or> py_type x = TTuple)) xs"
    using assms(2) by (simp add: list_ex_iff)
  moreover have "is_number x" using assms(2) Cons by simp
  ultimately show ?thesis
    using assms py_list_not_number[OF assms(1)] Cons by (simp add: color_def)
qed

lemma color_tuples:
  assumes "py_list v = Inr xs" "xs \<noteq> []" "\<forall>x\<in>set xs. py_type x = TTuple"
  shows "color v = Inr (PInt 0)"
proof -
  from assms(2) obtain x rest where xs: "xs = x # rest" by (cases xs) auto
  have "\<not> list_ex (\<lambda>x. \<not> (is_number x \<or> py_type x = TTuple)) xs"
    using assms(3) by (simp add: list_ex_iff)
  moreover have "\<not> mixed_types xs" using assms(3) by (rule same_type_not_mixed)
  moreover have "\<not> is_number x" using assms(3) xs by (cases x) auto
  ultimately show ?thesis
    using assms py_list_not_number[OF assms(1)] xs by (simp add: color_def)
qed

text \<open>
  Claim C8, as the code has it. \<open>color\<close> returns a plain number unchanged; of a sequence
  \<open>v\<close> with elements \<open>xs\<close> it returns the single element when that is a number, and the list
  of the first three elements when \<open>xs\<close> are three or four numbers of one type. It raises
  \<open>ValueError\<close> when the types of the elements are mixed, and some error when \<open>xs\<close> are
  numbers and their count is not 1, 3 or 4 (\<open>IndexError\<close> for none at all). A sequence of
  tuples is no error: whatever its length, a non-empty one yields \<open>0\<close>.
\<close>

theorem color_shapes:
  "(is_number v \<longrightarrow> color v = Inr v)
   \<and> (py_list v = Inr [x] \<and> is_number x \<longrightarrow> color v = Inr x)
   \<and> (py_list v = Inr xs \<and> (\<forall>x\<in>set xs. is_number x) \<and> \<not> mixed_types xs
        \<and> (length xs = 3 \<or> length xs = 4) \<longrightarrow> color v = Inr (PList (take 3 xs)))
   \<and> (py_list v = Inr xs \<and> mixed_types xs \<longrightarrow> (\<exists>m. color v = Inl (ValueError m)))
   \<and> (py_list v = Inr xs \<and> (\<forall>x\<in>set xs. is_number x) \<and> length xs \<notin> {1, 3, 4}
        \<longrightarrow> (\<exists>e. color v = Inl e))
   \<and> (py_list v = Inr xs \<and> xs \<noteq> [] \<and> (\<forall>x\<in>set xs. py_type x = TTuple)
        \<longrightarrow> color v = Inr (PInt 0))"
  using color_number color_single color_three_or_four color_mixed color_bad_length color_tuples
  by blast

theorem color_shapes_witness:
  "color (PFloat 0.5) = Inr (PFloat 0.5)
   \<and> color (PTuple [PFloat 0.8]) = Inr (PFloat 0.8)
   \<and> color (PTuple [PFloat 0.8, PFloat 0.1, PFloat 0.2, PFloat 1.0])
       = Inr (PList [PFloat 0.8, PFloat 0.1, PFloat 0.2])
   \<and> (\<exists>m. color (PList [PInt 1, PFloat 0.5, PInt 0]) = Inl (ValueError m))
   \<and> (\<exists>e. color (PTuple [PFloat 0.5, PFloat 0.5]) = Inl e)
   \<and> color (PList [PTuple [PInt 1, PInt 2], PTuple [PInt 3, PInt 4], PTuple [PInt 5, PInt 6]])
       = Inr (PInt 0)"
  using color_shapes[of "PFloat 0.5" "PFloat 0.5" "[]"]
    color_shapes[of "PTuple [PFloat 0.8]" "PFloat 0.8" "[PFloat 0.8]"]
    color_shapes[of "PTuple [PFloat 0.8, PFloat 0.1, PFloat 0.2, PFloat 1.0]" "PNone"
      "[PFloat 0.8, PFloat 0.1, PFloat 0.2, PFloat 1.0]"]
    color_shapes[of "PList [PInt 1, PFloat 0.5, PInt 0]" "PNone" "[PInt 1, PFloat 0.5, PInt 0]"]
    color_shapes[of "PTuple [PFloat 0.5, PFloat 0.5]" "PNone" "[PFloat 0.5, PFloat 0.5]"]
    color_shapes[of "PList [PTuple [PInt 1, PInt 2], PTuple [PInt 3, PInt 4], PTuple [PInt 5, PInt 6]]"
      "PNone" "[PTuple [PInt 1, PInt 2], PTuple [PInt 3, PInt 4], PTuple [PInt 5, PInt 6]]"]
  by simp

text \<open>A sequence of length 2 for which \<open>color\<close> does not fail: two tuples yield \<open>0\<close>.\<close>

theorem color_tuples_counterexample:
  "color (PList [PTuple [PInt 1, PInt 2], PTuple [PInt 3, PInt 4]]) = Inr (PInt 0)"
  by (simp add: color_def)

section \<open>Properties of the socket resolver\<close>

lemma follow_link_chain:
  "chain k g s = Some t \<Longrightarrow> \<not> driven_by_reroute g t \<Longrightarrow> k < n \<Longrightarrow> follow_link n g s = Inr t"
proof (induction k arbitrary: s n)
  case 0
  then obtain m where "n = Suc m" by (cases n) auto
  with 0 show ?case by (auto simp: driven_by_reroute_def split: list.splits)
next
  case (Suc k)
  then obtain m where n: "n = Suc m" and km: "k < m" by (cases n) auto
  from Suc.prems(1) obtain l ls s' where
    l: "links s = l # ls" "bl_idname (g (from_node l)) = ''NodeReroute''"
      "input_at (g (from_node l)) 0 = Inr s'" "chain k g s' = Some t"
    by (auto split: list.splits if_splits sum.splits)
  from Suc.IH[OF l(4) Suc.prems(2) km] l n show ?case by simp
qed

lemma follow_link_endless:
  "(\<And>k. \<exists>t. chain k g s = Some t \<and> driven_by_reroute g t) \<Longrightarrow> follow_link n g s = Inl RecursionError"
proof (induction n arbitrary: s)
  case 0
  show ?case by simp
next
  case (Suc n)
  from Suc.prems[of 0] have d: "driven_by_reroute g s" by simp
  then obtain l ls where l: "links s = l # ls" "bl_idname (g (from_node l)) = ''NodeReroute''"
    by (auto simp: driven_by_reroute_def split: list.splits)
  from Suc.prems[of 1] l obtain s' where s': "input_at (g (from_node l)) 0 = Inr s'"
    by (auto split: sum.splits)
  have "\<And>k. \<exists>t. chain k g s' = Some t \<and> driven_by_reroute g t"
  proof -
    fix k
    from Suc.prems[of "Suc k"] l s' show "\<exists>t. chain k g s' = Some t \<and> driven_by_reroute g t"
      by simp
  qed
  from Suc.IH[OF this] l s' show ?case by simp
qed

lemma chain_add:
  "chain (a + b) g s = (case chain a g s of None \<Rightarrow> None | Some u \<Rightarrow> chain b g u)"
  by (induction a arbitrary: s) (auto split: list.splits sum.splits)

lemma chain_prefix:
  "chain (a + b) g s = Some t \<Longrightarrow> \<exists>u. chain a g s = Some u"
  by (simp add: chain_add split: option.splits)

lemma chain_Suc_driven:
  assumes "chain (Suc a) g s = Some t"
  shows "\<exists>u. chain a g s = Some u \<and> driven_by_reroute g u"
proof -
  have "chain (a + 1) g s = Some t" using assms by simp
  then obtain u where u: "chain a g s = Some u" "chain 1 g u = Some t"
    unfolding chain_add by (auto split: option.splits)
  from u(2) have "driven_by_reroute g u"
    by (auto simp: driven_by_reroute_def split: list.splits if_splits)
  with u show ?thesis by blast
qed

lemma chain_cycle_repeat:
  "chain i g s = Some t \<Longrightarrow> chain (i + Suc p) g s = Some t \<Longrightarrow> chain (i + m * Suc p) g s = Some t"
proof (induction m)
  case 0
  then show ?case by simp
next
  case (Suc m)
  have "chain (i + Suc m * Suc p) g s = chain ((i + m * Suc p) + Suc p) g s"
    by (simp add: algebra_simps)
  also have "\<dots> = chain (Suc p) g t"
    using Suc by (simp only: chain_add[of "i + m * Suc p"] option.case)
  also have "\<dots> = Some t"
    using Suc.prems by (simp only: chain_add[of i] option.case)
  finally show ?case .
qed

lemma chain_cycle_endless:
  assumes "chain i g s = Some t" "chain (i + Suc p) g s = Some t"
  shows "\<exists>u. chain k g s = Some u \<and> driven_by_reroute g u"
proof -
  have "chain (i + Suc k * Suc p) g s = Some t" using assms by (rule chain_cycle_repeat)
  moreover have "\<exists>d. i + Suc k * Suc p = Suc k + d"
    by (intro exI[of _ "i + Suc k * Suc p - Suc k"]) simp
  ultimately obtain d where "chain (Suc k + d) g s = Some t" by metis
  then obtain u where "chain (Suc k) g s = Some u" using chain_prefix by blast
  then show ?thesis by (rule chain_Suc_driven)
qed

lemma follow_link_cycle:
  assumes "chain i g s = Some t" "chain (i + Suc p) g s = Some t"
  shows "follow_link n g s = Inl RecursionError"
  by (rule follow_link_endless) (rule chain_cycle_endless[OF assms])

text \<open>
  Claim C9, as the code has it. When the chain of reroute nodes behind a socket \<open>s\<close> ends
  after \<open>k\<close> nodes at a socket \<open>t\<close> that no reroute node drives, \<open>follow_link\<close> returns \<open>t\<close>,
  the first such socket, at every call depth above \<open>k\<close>. When the chain is cyclic (it comes
  back to a socket it has visited), \<open>follow_link\<close> has no guard: at every call depth the
  recursion uses the depth up and ends in the interpreter's \<open>RecursionError\<close>.
\<close>

theorem follow_link_resolves:
  "(chain k g s = Some t \<and> \<not> driven_by_reroute g t \<and> k < depth \<longrightarrow> follow_link depth g s = Inr t)
   \<and> (chain i g s = Some u \<and> chain (i + Suc p) g s = Some u
        \<longrightarrow> follow_link depth g s = Inl RecursionError)"
  using follow_link_chain follow_link_cycle by blast

theorem follow_link_resolves_witness:
  "follow_link 3 reroute_graph (linked_to 2 ''Output'') = Inr (linked_to 0 ''BSDF'')
   \<and> follow_link 3 reroute_graph (linked_to 7 ''Output'') = Inl RecursionError"
proof -
  have a: "chain 2 reroute_graph (linked_to 2 ''Output'') = Some (linked_to 0 ''BSDF'')"
    by code_simp
  have b: "\<not> driven_by_reroute reroute_graph (linked_to 0 ''BSDF'')"
    by code_simp
  have c: "chain 0 reroute_graph (linked_to 7 ''Output'') = Some (linked_to 7 ''Output'')"
    by simp
  have d: "chain (0 + Suc 0) reroute_graph (linked_to 7 ''Output'') = Some (linked_to 7 ''Output'')"
    by code_simp
  from follow_link_resolves[of 2 reroute_graph "linked_to 2 ''Output''" "linked_to 0 ''BSDF''" 3
      0 "linked_to 7 ''Output''" 0] a b
    follow_link_resolves[of 0 reroute_graph "linked_to 7 ''Output''" "linked_to 7 ''Output''" 3
      0 "linked_to 7 ''Output''" 0] c d
  show ?thesis by simp
qed

text \<open>A reroute node fed by itself: at call depth 1000 the resolver ends in
  \<open>RecursionError\<close>, the only error a cyclic chain can cause.\<close>

theorem follow_link_cycle_counterexample:
  "follow_link 1000 reroute_graph (linked_to 7 ''Output'') = Inl RecursionError"
  by code_simp

section \<open>Properties of computations\<close>

lemma bind_return [simp]: "bind (return x) f = f x"
  by (simp add: bind_def return_def split: prod.splits)

lemma bind_raise [simp]: "bind (raise e) f = raise e"
  by (simp add: bind_def raise_def)

lemma bind_lift_Inr [simp]: "bind (lift (Inr x)) f = f x"
  by (simp add: bind_def lift_def split: prod.splits)

lemma bind_lift_Inl [simp]: "bind (lift (Inl e)) f = raise e"
  by (simp add: bind_def lift_def raise_def)

lemma bind_nil_Inr [simp]: "bind ([], Inr x) f = f x"
  by (simp add: bind_def split: prod.splits)

lemma bind_Inl [simp]: "bind (l, Inl e) f = (l, Inl e)"
  by (simp add: bind_def)

lemma bind_Inr_iff:
  "bind m f = (lg, Inr v) \<longleftrightarrow> (\<exists>l1 x l2. m = (l1, Inr x) \<and> f x = (l2, Inr v) \<and> lg = l1 @ l2)"
  by (cases m; cases "snd m") (auto simp: bind_def split: prod.splits sum.splits)

lemma bind_InrE:
  assumes "bind m f = (lg, Inr v)"
  obtains l1 x l2 where "m = (l1, Inr x)" "f x = (l2, Inr v)" "lg = l1 @ l2"
  using assms unfolding bind_Inr_iff by blast

lemma return_Inr_iff [simp]: "return x = (lg, Inr v) \<longleftrightarrow> lg = [] \<and> x = v"
  by (auto simp: return_def)

lemma raise_not_Inr [simp]: "raise e \<noteq> (lg, Inr v)"
  by (simp add: raise_def)

lemma lift_Inr_iff [simp]: "lift r = (lg, Inr v) \<longleftrightarrow> lg = [] \<and> r = Inr v"
  by (auto simp: lift_def)

lemma report_bind:
  "bind (report level msg) f = (case f () of (l2, r) \<Rightarrow> ((level, msg) # l2, r))"
  by (simp add: report_def bind_def)

lemma info_cases: "info c msg = ([], Inr ()) \<or> info c msg = ([(''INFO'', msg)], Inr ())"
  by (simp add: info_def report_def return_def)

lemma info_bind_Inl: "f () = (l, Inl e) \<Longrightarrow> \<exists>l'. bind (info c msg) f = (l', Inl e)"
  using info_cases[of c msg] by (auto simp: bind_def)

lemma dict_has_set [simp]: "dict_has (dict_set d k v) k' = (k' = k \<or> dict_has d k')"
  by (induction d) (auto simp: dict_has_def split: if_splits)

lemma dict_has_Nil [simp]: "dict_has [] k = False"
  by (simp add: dict_has_def)


lemma input_linked_Inr_iff [simp]:
  "input_linked n k = (lg, Inr b) \<longleftrightarrow> lg = [] \<and> has_input n k \<and> b = input_connected n k"
  by (auto simp: input_linked_def input_def has_input_def input_connected_def split: option.splits)

lemma lookup_Inr_iff [simp]:
  "lookup table k = (lg, Inr v) \<longleftrightarrow> lg = [] \<and> map_of table k = Some v"
  by (auto simp: lookup_def split: option.splits)

lemma input_default_eq: "input n k = Inr s \<Longrightarrow> input_default n k = ([], Inr (default_value s))"
  by (simp add: input_default_def return_def)

lemma input_linked_eq: "input n k = Inr s \<Longrightarrow> input_linked n k = ([], Inr (is_linked s))"
  by (simp add: input_linked_def return_def)

lemma conv_unlinked:
  "links s = [] \<Longrightarrow> convert_texture_node (Suc depth) c g s = ([], color (default_value s))"
  by (simp add: is_linked_def lift_def)

section \<open>Properties of the texture converters\<close>

text \<open>
  Claim C7, as the code has it. A converter whose capability flag is off returns its fixed
  substitute and reports nothing, whatever the node and whatever the rest of the graph: the
  colour \<open>[0.0, 1.0, 0.3]\<close> for thirteen kinds, the number \<open>0.5\<close> for six kinds. The mapping
  node is the exception: with its flag off its converter returns \<open>None\<close>.
\<close>

theorem disabled_substitution:
  "(\<not> enable_checker c \<longrightarrow>
      convert_checker_texture_node c g tex os = ([], Inr (PList [PFloat 0, PFloat 1, PFloat 0.3])))
   \<and> (\<not> enable_brick c \<longrightarrow>
      convert_brick_texture_node c g tex os = ([], Inr (PList [PFloat 0, PFloat 1, PFloat 0.3])))
   \<and> (\<not> enable_mix_rgb c \<longrightarrow>
      convert_mix_rgb_node c g tex os = ([], Inr (PList [PFloat 0, PFloat 1, PFloat 0.3])))
   \<and> (\<not> enable_mix_node c \<longrightarrow>
      convert_mix_node c g tex os = ([], Inr (PList [PFloat 0, PFloat 1, PFloat 0.3])))
   \<and> (\<not> enable_clamp c \<longrightarrow>
      convert_clamp_node c g tex os = ([], Inr (PList [PFloat 0, PFloat 1, PFloat 0.3])))
   \<and> (\<not> enable_blackbody c \<longrightarrow>
      convert_blackbody_node c g tex os = ([], Inr (PList [PFloat 0, PFloat 1, PFloat 0.3])))
   \<and> (\<not> enable_wavelength c \<longrightarrow>
      convert_wavelength_node c g tex os = ([], Inr (PList [PFloat 0, PFloat 1, PFloat 0.3])))
   \<and> (\<not> enable_coord c \<longrightarrow>
      convert_coord_texture_node c g tex os = ([], Inr (PList [PFloat 0, PFloat 1, PFloat 0.3])))
   \<and> (\<not> enable_wireframe c \<longrightarrow>
      convert_wireframe_texture_node c g tex os = ([], Inr (PList [PFloat 0, PFloat 1, PFloat 0.3])))
   \<and> (\<not> enable_color_ramp c \<longrightarrow>
      convert_val_to_rgb_node c g tex os = ([], Inr (PList [PFloat 0, PFloat 1, PFloat 0.3])))
   \<and> (\<not> enable_separate c \<longrightarrow>
      convert_separate_node c g tex os = ([], Inr (PList [PFloat 0, PFloat 1, PFloat 0.3])))
   \<and> (\<not> enable_gradient c \<longrightarrow>
      convert_gradient_node c g tex os = ([], Inr (PList [PFloat 0, PFloat 1, PFloat 0.3])))
   \<and> (\<not> enable_math c \<longrightarrow>
      convert_math_node c g tex os = ([], Inr (PList [PFloat 0, PFloat 1, PFloat 0.3])))
   \<and> (\<not> enable_wave c \<longrightarrow> convert_wave_texture_node c g tex os = ([], Inr (PFloat 0.5)))
   \<and> (\<not> enable_noise c \<longrightarrow> convert_noise_texture_node c g tex os = ([], Inr (PFloat 0.5)))
   \<and> (\<not> enable_voronoi c \<longrightarrow> convert_voronoi_texture_node c g tex os = ([], Inr (PFloat 0.5)))
   \<and> (\<not> enable_musgrave c \<longrightarrow> convert_musgrave_texture_node c g tex os = ([], Inr (PFloat 0.5)))
   \<and> (\<not> enable_layer_weight c \<longrightarrow> convert_layer_weight_node c g tex os = ([], Inr (PFloat 0.5)))
   \<and> (\<not> enable_fresnel c \<longrightarrow> convert_fresnel_node c g tex os = ([], Inr (PFloat 0.5)))
   \<and> (\<not> enable_mapping c \<longrightarrow> convert_mapping_node c g tex os = ([], Inr PNone))"
  by (simp add: convert_checker_texture_node_def convert_brick_texture_node_def
      convert_mix_rgb_node_def convert_mix_node_def convert_clamp_node_def
      convert_blackbody_node_def convert_wavelength_node_def convert_coord_texture_node_def
      convert_wireframe_texture_node_def convert_val_to_rgb_node_def convert_separate_node_def
      convert_gradient_node_def convert_math_node_def convert_wave_texture_node_def
      convert_noise_texture_node_def convert_voronoi_texture_node_def
      convert_musgrave_texture_node_def convert_layer_weight_node_def convert_fresnel_node_def
      convert_mapping_node_def dummy_color_def lift_def color_def return_def)

theorem disabled_substitution_witness:
  "convert_checker_texture_node disabled_ctx texture_graph
       (convert_texture_node 3 disabled_ctx texture_graph) \<lparr>os_node = 0, os_name = ''Fac''\<rparr>
     = ([], Inr (PList [PFloat 0, PFloat 1, PFloat 0.3]))
   \<and> convert_noise_texture_node disabled_ctx texture_graph
       (convert_texture_node 3 disabled_ctx texture_graph) \<lparr>os_node = 0, os_name = ''Fac''\<rparr>
     = ([], Inr (PFloat 0.5))
   \<and> convert_mapping_node disabled_ctx texture_graph
       (convert_texture_node 3 disabled_ctx texture_graph) \<lparr>os_node = 0, os_name = ''Fac''\<rparr>
     = ([], Inr PNone)"
  using disabled_substitution[of disabled_ctx texture_graph
      "convert_texture_node 3 disabled_ctx texture_graph" "\<lparr>os_node = 0, os_name = ''Fac''\<rparr>"]
  by (simp add: disabled_ctx_def example_ctx_def del: convert_texture_node.simps)

text \<open>With the mapping flag off, a socket fed by a mapping node converts to \<open>None\<close>: neither
  \<open>0.5\<close> nor the dummy colour.\<close>

theorem disabled_mapping_counterexample:
  "convert_texture_node 3 disabled_ctx texture_graph (linked_to 5 ''Vector'') = ([], Inr PNone)"
  by code_simp









section \<open>Properties of the surface converters\<close>

text \<open>
  Claim C5. A glass node whose \<open>Roughness\<close> input is unconnected with default \<open>r\<close>, whose
  \<open>IOR\<close> input holds the number \<open>ior\<close>, and whose \<open>Color\<close> input converts to \<open>col\<close>: when
  \<open>r\<close> is 0 the descriptor has type \<open>thin dielectric\<close> if \<open>ior\<close> is 1 and \<open>dielectric\<close>
  otherwise; when \<open>r\<close> is not 0 and the distribution is not \<open>SHARP\<close> (and has an entry in
  \<open>RoughnessMode\<close>) the type is \<open>rough dielectric\<close>, with the roughness and the
  distribution. In both cases the descriptor carries the IOR, and its reflectance and
  transmittance are both \<open>col\<close>. A connected \<open>IOR\<close> input adds one warning and its default
  value is used all the same.
\<close>

theorem glass_descriptor:
  assumes "input n ''IOR'' = Inr si" "default_value si = PFloat ior"
    and "input n ''Roughness'' = Inr sr" "links sr = []" "default_value sr = PFloat r"
    and "conv_input (convert_texture_node (Suc depth) c g) n ''Color'' = (lc, Inr col)"
  shows
    "(r = 0 \<longrightarrow>
        convert_glass_material c g follow (convert_texture_node (Suc depth) c g) surf n =
          ((if is_linked si
            then [(''WARNING'', [PStr (name n @ '': Textured IOR values are not supported in Darts. Using the default value instead.'')])]
            else []) @ lc,
           Inr [(''type'', PStr (if ior = 1 then ''thin dielectric'' else ''dielectric'')),
                (''ior'', PFloat ior), (''reflectance'', col), (''transmittance'', col)]))
     \<and> (r \<noteq> 0 \<and> sattr n ''distribution'' \<noteq> ''SHARP''
          \<and> map_of RoughnessMode (sattr n ''distribution'') = Some m \<longrightarrow>
        convert_glass_material c g follow (convert_texture_node (Suc depth) c g) surf n =
          ((if is_linked si
            then [(''WARNING'', [PStr (name n @ '': Textured IOR values are not supported in Darts. Using the default value instead.'')])]
            else []) @ lc,
           Inr [(''type'', PStr ''rough dielectric''), (''roughness'', PFloat r),
                (''distribution'', PStr m), (''ior'', PFloat ior),
                (''reflectance'', col), (''transmittance'', col)]))"
proof -
  have rough: "conv_input (convert_texture_node (Suc depth) c g) n ''Roughness'' = ([], Inr (PFloat r))"
    using assms(3-5) unfolding conv_input_def
    by (simp add: conv_unlinked color_def del: convert_texture_node.simps)
  show ?thesis
    using assms(1,2,6) rough
    by (simp add: convert_glass_material_def input_linked_eq input_default_eq report_bind
        lookup_def return_def bind_def report_def del: convert_texture_node.simps)
qed

theorem glass_descriptor_witness:
  "convert_glass_material example_ctx surface_graph (follow_link 2 surface_graph)
       (convert_texture_node (Suc 2) example_ctx surface_graph)
       (\<lambda>m. cycles_surface_to_dict 2 example_ctx surface_graph m None) (surface_graph 2)
     = ([], Inr [(''type'', PStr ''thin dielectric''), (''ior'', PFloat 1),
                 (''reflectance'', PList [PFloat 1, PFloat 1, PFloat 1]),
                 (''transmittance'', PList [PFloat 1, PFloat 1, PFloat 1])])
   \<and> convert_glass_material example_ctx surface_graph (follow_link 2 surface_graph)
       (convert_texture_node (Suc 2) example_ctx surface_graph)
       (\<lambda>m. cycles_surface_to_dict 2 example_ctx surface_graph m None) (surface_graph 3)
     = ([], Inr [(''type'', PStr ''rough dielectric''), (''roughness'', PFloat (1 / 5)),
                 (''distribution'', PStr ''beckmann''), (''ior'', PFloat (3 / 2)),
                 (''reflectance'', PList [PFloat 1, PFloat 1, PFloat 1]),
                 (''transmittance'', PList [PFloat 1, PFloat 1, PFloat 1])])"
proof -
  have a: "input (surface_graph 2) ''IOR'' = Inr (unlinked (PFloat 1))"
    "input (surface_graph 2) ''Roughness'' = Inr (unlinked (PFloat 0))"
    "input (surface_graph 3) ''IOR'' = Inr (unlinked (PFloat (3 / 2)))"
    "input (surface_graph 3) ''Roughness'' = Inr (unlinked (PFloat (1 / 5)))"
    by (simp_all add: surface_graph_def example_node_def input_def)
  have b: "default_value (unlinked v) = v" "links (unlinked v) = []" for v
    by (simp_all add: unlinked_def)
  have c2: "conv_input (convert_texture_node (Suc 2) example_ctx surface_graph) (surface_graph 2) ''Color''
      = ([], Inr (PList [PFloat 1, PFloat 1, PFloat 1]))"
    by code_simp
  have c3: "conv_input (convert_texture_node (Suc 2) example_ctx surface_graph) (surface_graph 3) ''Color''
      = ([], Inr (PList [PFloat 1, PFloat 1, PFloat 1]))"
    by code_simp
  have d: "sattr (surface_graph 3) ''distribution'' \<noteq> ''SHARP''"
    "map_of RoughnessMode (sattr (surface_graph 3) ''distribution'') = Some ''beckmann''"
    by (simp_all add: surface_graph_def example_node_def RoughnessMode_def)
  from glass_descriptor[OF a(1) b(1) a(2) b(2) b(1) c2,
      where follow = "follow_link 2 surface_graph"
        and surf = "\<lambda>m. cycles_surface_to_dict 2 example_ctx surface_graph m None"]
    glass_descriptor[OF a(3) b(1) a(4) b(2) b(1) c3,
      where m = "''beckmann''" and follow = "follow_link 2 surface_graph"
        and surf = "\<lambda>m. cycles_surface_to_dict 2 example_ctx surface_graph m None"] d
  show ?thesis
    by (simp add: is_linked_def b del: convert_texture_node.simps cycles_surface_to_dict.simps)
qed










lemma map_of_dict_set [simp]:
  "map_of (dict_set d k v) k' = (if k' = k then Some v else map_of d k')"
  by (induction d) auto

lemma dict_lit_other:
  "dict_lit d fs = (l, Inr d') \<Longrightarrow> k \<notin> fst ` set fs \<Longrightarrow> map_of d' k = map_of d k"
proof (induction fs arbitrary: d l)
  case Nil
  then show ?case by simp
next
  case (Cons f fs)
  from Cons.prems(1) obtain l1 x l2 where
    a: "snd f = (l1, Inr x)" "dict_lit (dict_set d (fst f) x) fs = (l2, Inr d')"
    by (auto elim!: bind_InrE)
  from Cons.IH[OF a(2)] Cons.prems(2) show ?case by auto
qed

lemma dict_lit_type:
  assumes "dict_lit [] ((''type'', return v) # fs) = (l, Inr d')" "''type'' \<notin> fst ` set fs"
  shows "map_of d' ''type'' = Some v"
proof -
  from assms(1) have "dict_lit [(''type'', v)] fs = (l, Inr d')" by simp
  from dict_lit_other[OF this assms(2)] show ?thesis by simp
qed

lemma dict_del_absent: "\<not> dict_has d k \<Longrightarrow> dict_del d k = d"
  by (induction d) (auto simp: dict_has_def dict_del_def split: if_splits)

lemma finish_wrap_result:
  assumes "finish_wrap c nested wrapper = (lg, Inr d)"
  shows "map_of d ''type'' = map_of wrapper ''type''
         \<and> map_of d ''nested'' = Some (PDict (dict_del nested ''name''))"
proof (cases "dict_has nested ''name''")
  case True
  then obtain v where "dict_get nested ''name'' = Inr v"
    by (auto simp: dict_has_def dict_get_def)
  with True assms show ?thesis
    unfolding finish_wrap_def Let_def
    by (auto elim!: bind_InrE)
next
  case False
  with assms show ?thesis
    unfolding finish_wrap_def Let_def
    by (auto elim!: bind_InrE simp: dict_del_absent)
qed

lemma wrap_result:
  assumes r: "wrap_with_bump_or_normal_map c g follow tex n nested = (lg, Inr d)"
    and i: "input n ''Normal'' = Inr sN" "is_linked sN" "linked_node g follow sN = (lN, Inr nm)"
    and k: "bl_idname nm = ''ShaderNodeNormalMap'' \<and> use_normal_maps c
            \<or> bl_idname nm = ''ShaderNodeBump'' \<and> use_bump_maps c"
  shows "map_of d ''type'' =
           Some (PStr (if bl_idname nm = ''ShaderNodeNormalMap'' then ''normal map'' else ''bump map''))
         \<and> map_of d ''nested'' = Some (PDict (dict_del nested ''name''))"
proof -
  have h: "has_input n ''Normal''" using i(1) by (auto simp: has_input_def input_def split: option.splits)
  have lN: "lN = []" using i(3) by (auto simp: linked_node_def elim!: bind_InrE)
  have l: "input_linked n ''Normal'' = ([], Inr True)" using i(1,2) by (simp add: input_linked_eq)
  from k have u: "use_normal_maps c \<or> use_bump_maps c" by auto
  show ?thesis
  proof (cases "bl_idname nm = ''ShaderNodeNormalMap''")
    case True
    with k have un: "use_normal_maps c" by auto
    from r obtain l1 w l2 where
      w: "dict_lit []
              [(''type'', return (PStr ''normal map'')),
               (''normals'', conv_input tex nm ''Color''),
               (''strength'', input_default nm ''Strength'')] = (l1, Inr w)"
      and f: "finish_wrap c nested w = (l2, Inr d)"
      unfolding wrap_with_bump_or_normal_map_def
      using h l u i(1,3) lN True un
      by (simp del: dict_lit.simps split: if_splits) (erule bind_InrE)
    have "map_of w ''type'' = Some (PStr ''normal map'')"
      using w by (rule dict_lit_type) simp
    with finish_wrap_result[OF f] True show ?thesis by simp
  next
    case False
    with k have b: "bl_idname nm = ''ShaderNodeBump''" and ub: "use_bump_maps c" by auto
    from r obtain l1 w l2 where
      w: "dict_lit []
                   [(''type'', return (PStr ''bump map'')),
                    (''height'', conv_input tex nm ''Height''),
                    (''strength'', conv_input tex nm ''Strength''),
                    (''distance'', conv_input tex nm ''Distance''),
                    (''invert'', return (attr nm ''invert''))] = (l1, Inr w)"
      and f: "finish_wrap c nested w = (l2, Inr d)"
      unfolding wrap_with_bump_or_normal_map_def
      using h l u i(1,3) lN False b ub
      by (simp del: dict_lit.simps split: if_splits) (erule bind_InrE)
    have "map_of w ''type'' = Some (PStr ''bump map'')"
      using w by (rule dict_lit_type) simp
    with finish_wrap_result[OF f] False show ?thesis by simp
  qed
qed

lemma make_two_sided_result:
  assumes "force_two_sided c" "make_two_sided c bsdf = (lg, Inr r)"
  shows "r = [(''type'', PStr ''two sided''), (''both sides'', PDict bsdf)]"
  using assms unfolding make_two_sided_def
  by (auto elim!: bind_InrE)

lemma diffuse_two_sided:
  assumes "force_two_sided c" "convert_diffuse_material c g follow tex surf n = (lg, Inr r)"
  shows "\<exists>core. r = [(''type'', PStr ''two sided''), (''both sides'', PDict core)]"
  using assms(2) unfolding convert_diffuse_material_def
  apply (erule_tac bind_InrE)
  apply (drule make_two_sided_result[OF assms(1)])
  apply blast
  done

lemma glossy_two_sided:
  assumes "force_two_sided c" "convert_glossy_material c g follow tex surf n = (lg, Inr r)"
  shows "\<exists>core. r = [(''type'', PStr ''two sided''), (''both sides'', PDict core)]"
  using assms(2) unfolding convert_glossy_material_def
  apply (erule_tac bind_InrE)
  apply (erule_tac bind_InrE)
  apply (drule make_two_sided_result[OF assms(1)])
  apply blast
  done

lemma converter_two_sided:
  assumes kind: "bl_idname n \<in> {''ShaderNodeBsdfDiffuse'', ''ShaderNodeBsdfGlossy'', ''ShaderNodeBsdfAnisotropic''}"
    and two: "force_two_sided c"
    and m: "map_of cycles_converters (bl_idname n) = Some converter"
    and r: "converter c g follow tex surf n = (lg, Inr r)"
  shows "\<exists>core. r = [(''type'', PStr ''two sided''), (''both sides'', PDict core)]"
proof -
  from kind m have "converter = convert_diffuse_material \<or> converter = convert_glossy_material"
    by (auto simp: cycles_converters_def)
  with r two show ?thesis using diffuse_two_sided glossy_two_sided by blast
qed

lemma named_params:
  "dict_del (dict_update (case nme of None \<Rightarrow> [] | Some x \<Rightarrow> [(''name'', PStr (material_name x))])
        [(''type'', PStr ''two sided''), (''both sides'', PDict core)]) ''name''
     = [(''type'', PStr ''two sided''), (''both sides'', PDict core)]"
  by (cases nme) (simp_all add: dict_del_def)

text \<open>
  Claim C1, as the code has it. \<open>make_two_sided\<close> is called inside the converters of the
  diffuse and glossy shaders, and \<open>wrap_with_bump_or_normal_map\<close> is applied afterwards to
  what they return. So for a diffuse or glossy node with the two-sided flag on and a normal
  map or bump node (with its flag on) behind its \<open>Normal\<close> input, the descriptor that
  \<open>cycles_surface_to_dict\<close> returns is the normal-map or bump-map adapter, and the two-sided
  adapter is what it holds as \<open>"nested"\<close>, around the core descriptor.
\<close>

theorem wrap_order:
  assumes kind: "bl_idname n \<in> {''ShaderNodeBsdfDiffuse'', ''ShaderNodeBsdfGlossy'', ''ShaderNodeBsdfAnisotropic''}"
    and two: "force_two_sided c"
    and i: "input n ''Normal'' = Inr sN" "is_linked sN"
      "linked_node g (follow_link depth g) sN = (lN, Inr nm)"
    and k: "bl_idname nm = ''ShaderNodeNormalMap'' \<and> use_normal_maps c
            \<or> bl_idname nm = ''ShaderNodeBump'' \<and> use_bump_maps c"
    and r: "cycles_surface_to_dict (Suc depth) c g n nme = (lg, Inr d)"
  shows "\<exists>core.
           dict_get d ''type'' =
             Inr (PStr (if bl_idname nm = ''ShaderNodeNormalMap'' then ''normal map'' else ''bump map''))
           \<and> dict_get d ''nested'' =
             Inr (PDict [(''type'', PStr ''two sided''), (''both sides'', PDict core)])"
proof -
  from kind obtain converter where m: "map_of cycles_converters (bl_idname n) = Some converter"
    by (auto simp: cycles_converters_def)
  let ?P = "case nme of None \<Rightarrow> [] | Some x \<Rightarrow> [(''name'', PStr (material_name x))]"
  from r m obtain l1 dd l2 where
    conv: "converter c g (follow_link depth g) (convert_texture_node depth c g)
                 (\<lambda>m. cycles_surface_to_dict depth c g m None) n = (l1, Inr dd)"
    and w: "wrap_with_bump_or_normal_map c g (follow_link depth g) (convert_texture_node depth c g)
           n (dict_update ?P dd) = (l2, Inr d)"
    by (auto simp: Let_def elim!: bind_InrE)
  from converter_two_sided[OF kind two m conv] obtain core where
    dd: "dd = [(''type'', PStr ''two sided''), (''both sides'', PDict core)]" by blast
  from wrap_result[OF w i k] named_params[of nme core] dd
  show ?thesis by (auto simp: dict_get_def)
qed

theorem wrap_order_witness:
  "cycles_surface_to_dict (Suc 2) example_ctx surface_graph (surface_graph 7) (Some ''Brushed Metal'')
     = ([], Inr
         [(''type'', PStr ''bump map''), (''height'', PFloat 1), (''strength'', PFloat 1),
          (''distance'', PFloat 1), (''invert'', PNone), (''name'', PStr ''Brushed_Metal''),
          (''nested'', PDict
             [(''type'', PStr ''two sided''),
              (''both sides'', PDict
                 [(''type'', PStr ''rough conductor''), (''distribution'', PStr ''ggx''),
                  (''roughness'', PFloat (1 / 2)),
                  (''color'', PList [PFloat (4 / 5), PFloat (4 / 5), PFloat (4 / 5)])])])])
   \<and> (\<exists>core.
         dict_get
           [(''type'', PStr ''bump map''), (''height'', PFloat 1), (''strength'', PFloat 1),
            (''distance'', PFloat 1), (''invert'', PNone), (''name'', PStr ''Brushed_Metal''),
            (''nested'', PDict
               [(''type'', PStr ''two sided''),
                (''both sides'', PDict
                   [(''type'', PStr ''rough conductor''), (''distribution'', PStr ''ggx''),
                    (''roughness'', PFloat (1 / 2)),
                    (''color'', PList [PFloat (4 / 5), PFloat (4 / 5), PFloat (4 / 5)])])])]
           ''nested''
         = Inr (PDict [(''type'', PStr ''two sided''), (''both sides'', PDict core)]))"
proof -
  have kind: "bl_idname (surface_graph 7)
      \<in> {''ShaderNodeBsdfDiffuse'', ''ShaderNodeBsdfGlossy'', ''ShaderNodeBsdfAnisotropic''}"
    by (simp add: surface_graph_def example_node_def)
  have two: "force_two_sided example_ctx"
    by (simp add: example_ctx_def)
  have i1: "input (surface_graph 7) ''Normal'' = Inr (linked_to 8 ''Normal'')"
    by (simp add: surface_graph_def example_node_def input_def)
  have i2: "is_linked (linked_to 8 ''Normal'')"
    by (simp add: is_linked_def linked_to_def)
  have i3: "linked_node surface_graph (follow_link 2 surface_graph) (linked_to 8 ''Normal'')
      = ([], Inr (surface_graph 8))"
    by (simp add: linked_node_def linked_to_def links0_def surface_graph_def example_node_def
        numeral_2_eq_2 return_def)
  have k: "bl_idname (surface_graph 8) = ''ShaderNodeNormalMap'' \<and> use_normal_maps example_ctx
      \<or> bl_idname (surface_graph 8) = ''ShaderNodeBump'' \<and> use_bump_maps example_ctx"
    by (simp add: surface_graph_def example_node_def example_ctx_def)
  have r: "cycles_surface_to_dict (Suc 2) example_ctx surface_graph (surface_graph 7)
      (Some ''Brushed Metal'')
     = ([], Inr
         [(''type'', PStr ''bump map''), (''height'', PFloat 1), (''strength'', PFloat 1),
          (''distance'', PFloat 1), (''invert'', PNone), (''name'', PStr ''Brushed_Metal''),
          (''nested'', PDict
             [(''type'', PStr ''two sided''),
              (''both sides'', PDict
                 [(''type'', PStr ''rough conductor''), (''distribution'', PStr ''ggx''),
                  (''roughness'', PFloat (1 / 2)),
                  (''color'', PList [PFloat (4 / 5), PFloat (4 / 5), PFloat (4 / 5)])])])])"
    by code_simp
  from wrap_order[OF kind two i1 i2 i3 k r] r show ?thesis by blast
qed

text \<open>A diffuse shader with a normal map, two-sided forced: the outermost layer of the
  descriptor is the normal-map adapter, not the two-sided one.\<close>

theorem wrap_order_counterexample:
  "cycles_surface_to_dict 3 example_ctx surface_graph (surface_graph 0) (Some ''Wall Paint'')
     = ([], Inr
         [(''type'', PStr ''normal map''),
          (''normals'', PList [PFloat (1 / 2), PFloat (1 / 2), PFloat 1]),
          (''strength'', PFloat 1), (''name'', PStr ''Wall_Paint''),
          (''nested'', PDict
             [(''type'', PStr ''two sided''),
              (''both sides'', PDict
                 [(''type'', PStr ''diffuse''),
                  (''color'', PList [PFloat (4 / 5), PFloat (4 / 5), PFloat (4 / 5)]),
                  (''roughness'', PFloat 0)])])])"
  by code_simp

section \<open>Properties of the material boundary\<close>

lemma bind_Inr_then: "m = (l1, Inr x) \<Longrightarrow> f x = (l2, r) \<Longrightarrow> bind m f = (l1 @ l2, r)"
  by (simp add: bind_def)

lemma info_bind: "\<exists>l. bind (info c msg) f = (l @ fst (f ()), snd (f ()))"
  using info_cases[of c msg]
  by (cases "f ()") (auto simp: bind_def intro: exI[of _ "[]"] exI[of _ "[(''INFO'', msg)]"])

lemma absorption_total_raises: "\<exists>m. absorption_total x = Inl (TypeError m)"
  by (cases x) (simp_all add: absorption_total_def max1_def)

lemma absorption_raises:
  assumes "input n ''Color'' = Inr sc" "links sc = []" "input n ''Density'' = Inr sd" "links sd = []"
    and "default_value sc = PTuple (x # xs)"
  shows "\<exists>m. convert_volume_absorption_node c n = ([], Inl (TypeError m))"
proof -
  obtain m where m: "map_err absorption_total (x # xs) = Inl (TypeError m)"
    using absorption_total_raises[of x] by auto
  show ?thesis using assms m
    by (simp add: convert_volume_absorption_node_def input_linked_eq input_default_eq is_linked_def
        raise_def)
qed

lemma cycles_volume_raises:
  assumes "bl_idname n = ''ShaderNodeVolumeAbsorption''"
    and "convert_volume_absorption_node c n = ([], Inl e)"
  shows "\<exists>lg. cycles_volume_to_dict c n nm = (lg, Inl e)"
proof -
  let ?P = "case nm of None \<Rightarrow> [] | Some x \<Rightarrow> [(''name'', PStr (material_name x))]"
  let ?inner = "\<lambda>u::unit. bind (convert_volume_absorption_node c n) (\<lambda>d.
         let params = dict_update ?P d in
         bind (lift (dict_get params ''type'')) (\<lambda>t.
         bind (info c [PStr (''  Created a '' @ [CHR 0x27]), t, PStr ([CHR 0x27] @ '' medium.'')]) (\<lambda>u.
         return params)))"
  have a: "?inner () = ([], Inl e)" using assms(2) by simp
  from info_bind_Inl[of ?inner "[]" e c, OF a]
  obtain l' where b: "bind (info c [PStr (''Converting a '' @ [CHR 0x27] @ bl_idname n @ [CHR 0x27]
                  @ '' Blender volume.'')]) ?inner = (l', Inl e)" by blast
  have "cycles_volume_to_dict c n nm = bind (info c [PStr ''Adding volume'']) (\<lambda>u.
      bind (info c [PStr (''Converting a '' @ [CHR 0x27] @ bl_idname n @ [CHR 0x27]
                  @ '' Blender volume.'')]) ?inner)"
    unfolding cycles_volume_to_dict_def Let_def
    using assms(1) by (simp add: cycles_volume_converters_def)
  with info_bind_Inl[OF b, of c "[PStr ''Adding volume'']"] show ?thesis by auto
qed

lemma material_volume_raises:
  assumes v: "input out ''Volume'' = Inr sv" "is_linked sv"
      "linked_node (node_tree b_mat) (follow_link depth (node_tree b_mat)) sv = (lN, Inr vn)"
    and e: "cycles_volume_to_dict c vn (Some (name_full b_mat @ '' volume'')) = (lg, Inl e)"
  shows "material_volume depth c b_mat out mat_params = (lg, Inl e)"
proof -
  have h: "has_input out ''Volume''" using v(1) by (auto simp: has_input_def input_def split: option.splits)
  have lN: "lN = []" using v(3) by (auto simp: linked_node_def elim!: bind_InrE)
  show ?thesis
    unfolding material_volume_def Let_def
    using h v e lN by (simp add: input_linked_eq)
qed

lemma convert_material_escapes:
  assumes "use_nodes b_mat" "map_of (nodes b_mat) ''Material Output'' = Some out"
    and "material_surface depth c b_mat out = (ls, Inr mp)"
    and "material_volume depth c b_mat out mp = (lv, Inl (TypeError m))"
  shows "convert_material depth c b_mat = (ls @ lv, Inl (TypeError m))"
  using assms
  by (simp add: convert_material_def convert_material_try_def catch_NotImplementedError_def bind_def)

lemma export_material_raises:
  assumes "convert_material depth c mat = (lg, Inl e)"
    and "name_full mat \<noteq> ''Dots Stroke''" "users mat \<noteq> 0"
    and "\<not> dict_has (already_exported st) (''mat-'' @ name_full mat)"
  shows "\<exists>lg'. export_material depth c st (Some mat) = (lg', Inl e)"
  using assms unfolding export_material_def Let_def
  by (auto intro!: info_bind_Inl)

lemma export_meshes_raises:
  assumes "export_material depth c st slot = (lg, Inl e)"
  shows "\<exists>lg'. export_meshes depth c st
     (\<lparr>mesh_name_full = mn, mesh_type = mt, data_materials = Some (slot # slots)\<rparr> # meshes) = (lg', Inl e)"
  using assms by (auto intro!: info_bind_Inl)

lemma export_raises:
  assumes "material_mode c = ''CONVERT''"
    and "export_meshes depth c
       \<lparr>materials = [PDict [(''type'', PStr ''diffuse''), (''name'', PStr ''default''),
                                     (''color'', PFloat 0.2)]],
               media = [], already_exported = cache\<rparr> meshes = (lg, Inl e)"
  shows "\<exists>lg'. export depth c bpy cache meshes = (lg', Inl e)"
  using assms unfolding export_def Let_def
  by (auto intro!: info_bind_Inl)

text \<open>
  Claim C10. A volume absorption node \<open>vn\<close> whose \<open>Color\<close> and \<open>Density\<close> inputs are
  unconnected, \<open>Color\<close> holding a colour (a tuple that is not empty): computing the first
  channel of \<open>"total"\<close> calls \<open>max\<close> with one float, which raises \<open>TypeError\<close>, so
  \<open>convert_volume_absorption_node\<close> returns no descriptor. When such a node is the volume of
  a material whose surface converts, the \<open>TypeError\<close> is not a \<open>NotImplementedError\<close>: it
  leaves \<open>convert_material\<close>, and the export that reaches the material ends with it.
\<close>

theorem volume_absorption_aborts:
  assumes "bl_idname vn = ''ShaderNodeVolumeAbsorption''"
    and "input vn ''Color'' = Inr sc" "links sc = []"
    and "input vn ''Density'' = Inr sd" "links sd = []"
    and "default_value sc = PTuple (x # xs)"
  shows
    "(\<exists>m. convert_volume_absorption_node c vn = ([], Inl (TypeError m)))
     \<and> (use_nodes b_mat \<and> map_of (nodes b_mat) ''Material Output'' = Some out
          \<and> material_surface depth c b_mat out = (ls, Inr mp)
          \<and> input out ''Volume'' = Inr sv \<and> is_linked sv
          \<and> linked_node (node_tree b_mat) (follow_link depth (node_tree b_mat)) sv = (lN, Inr vn)
        \<longrightarrow> (\<exists>lg m. convert_material depth c b_mat = (lg, Inl (TypeError m)))
            \<and> (material_mode c = ''CONVERT'' \<and> name_full b_mat \<noteq> ''Dots Stroke''
                 \<and> users b_mat \<noteq> 0 \<and> \<not> dict_has cache (''mat-'' @ name_full b_mat)
               \<longrightarrow> (\<exists>lg m. export depth c bpy cache
                      (\<lparr>mesh_name_full = mn, mesh_type = mt,
                        data_materials = Some (Some b_mat # slots)\<rparr> # meshes)
                    = (lg, Inl (TypeError m)))))"
proof -
  obtain m where m: "convert_volume_absorption_node c vn = ([], Inl (TypeError m))"
    using absorption_raises[OF assms(2-6)] by blast
  have second: "(\<exists>lg m. convert_material depth c b_mat = (lg, Inl (TypeError m)))
            \<and> (material_mode c = ''CONVERT'' \<and> name_full b_mat \<noteq> ''Dots Stroke''
                 \<and> users b_mat \<noteq> 0 \<and> \<not> dict_has cache (''mat-'' @ name_full b_mat)
               \<longrightarrow> (\<exists>lg m. export depth c bpy cache
                      (\<lparr>mesh_name_full = mn, mesh_type = mt,
                        data_materials = Some (Some b_mat # slots)\<rparr> # meshes)
                    = (lg, Inl (TypeError m))))"
    if h: "use_nodes b_mat" "map_of (nodes b_mat) ''Material Output'' = Some out"
      "material_surface depth c b_mat out = (ls, Inr mp)"
      "input out ''Volume'' = Inr sv" "is_linked sv"
      "linked_node (node_tree b_mat) (follow_link depth (node_tree b_mat)) sv = (lN, Inr vn)"
  proof -
    obtain lv where lv: "cycles_volume_to_dict c vn (Some (name_full b_mat @ '' volume''))
        = (lv, Inl (TypeError m))"
      using cycles_volume_raises[OF assms(1) m] by blast
    have mv: "material_volume depth c b_mat out mp = (lv, Inl (TypeError m))"
      using material_volume_raises[OF h(4,5,6) lv] .
    have cm: "convert_material depth c b_mat = (ls @ lv, Inl (TypeError m))"
      using convert_material_escapes[OF h(1,2,3) mv] .
    have ex: "\<exists>lg. export depth c bpy cache
                      (\<lparr>mesh_name_full = mn, mesh_type = mt,
                        data_materials = Some (Some b_mat # slots)\<rparr> # meshes)
                    = (lg, Inl (TypeError m))"
      if e: "material_mode c = ''CONVERT''" "name_full b_mat \<noteq> ''Dots Stroke''"
        "users b_mat \<noteq> 0" "\<not> dict_has cache (''mat-'' @ name_full b_mat)"
    proof -
      let ?st = "\<lparr>materials = [PDict [(''type'', PStr ''diffuse''), (''name'', PStr ''default''),
                                     (''color'', PFloat 0.2)]],
               media = [], already_exported = cache\<rparr>"
      from e(4) have "\<not> dict_has (already_exported ?st) (''mat-'' @ name_full b_mat)" by simp
      from export_material_raises[OF cm e(2,3) this]
      obtain l1 where "export_material depth c ?st (Some b_mat) = (l1, Inl (TypeError m))" by blast
      from export_meshes_raises[OF this]
      obtain l2 where "export_meshes depth c ?st
          (\<lparr>mesh_name_full = mn, mesh_type = mt, data_materials = Some (Some b_mat # slots)\<rparr> # meshes)
          = (l2, Inl (TypeError m))" by blast
      from export_raises[OF e(1) this] show ?thesis .
    qed
    from cm ex show ?thesis by blast
  qed
  from m second show ?thesis by blast
qed

theorem volume_absorption_aborts_witness:
  "(\<exists>m. convert_volume_absorption_node example_ctx (material_graph 0) = ([], Inl (TypeError m)))
   \<and> (\<exists>lg m. convert_material 3 example_ctx fog_material = (lg, Inl (TypeError m)))
   \<and> (\<exists>lg m. export 3 example_ctx [] []
         [\<lparr>mesh_name_full = ''Cube'', mesh_type = ''MESH'',
           data_materials = Some [Some fog_material, Some paint_material]\<rparr>]
       = (lg, Inl (TypeError m)))"
proof -
  let ?out = "output_node (unlinked PNone) (linked_to 0 ''Volume'')"
  have n: "bl_idname (material_graph 0) = ''ShaderNodeVolumeAbsorption''"
    "input (material_graph 0) ''Color''
       = Inr (unlinked (PTuple [PFloat 0.8, PFloat 0.8, PFloat 0.8, PFloat 1.0]))"
    "input (material_graph 0) ''Density'' = Inr (unlinked (PFloat 1.0))"
    by (simp_all add: material_graph_def example_node_def input_def)
  have u: "links (unlinked v) = []" for v
    by (simp add: unlinked_def)
  have d: "default_value (unlinked (PTuple [PFloat 0.8, PFloat 0.8, PFloat 0.8, PFloat 1.0]))
      = PTuple (PFloat 0.8 # [PFloat 0.8, PFloat 0.8, PFloat 1.0])"
    by (simp add: unlinked_def)
  have h: "use_nodes fog_material" "map_of (nodes fog_material) ''Material Output'' = Some ?out"
    "input ?out ''Volume'' = Inr (linked_to 0 ''Volume'')" "is_linked (linked_to 0 ''Volume'')"
    by (simp_all add: fog_material_def example_material_def output_node_def example_node_def
        input_def is_linked_def linked_to_def)
  have s: "material_surface 3 example_ctx fog_material ?out = ([], Inr [(''type'', PStr ''transparent'')])"
    by (simp add: material_surface_def output_node_def example_node_def has_input_def
        input_linked_def input_def is_linked_def unlinked_def return_def)
  have l: "linked_node (node_tree fog_material) (follow_link 3 (node_tree fog_material))
      (linked_to 0 ''Volume'') = ([], Inr (material_graph 0))"
    by (simp add: linked_node_def linked_to_def links0_def fog_material_def example_material_def
        material_graph_def example_node_def numeral_3_eq_3 return_def)
  have e: "material_mode example_ctx = ''CONVERT''" "name_full fog_material \<noteq> ''Dots Stroke''"
    "users fog_material \<noteq> 0" "\<not> dict_has [] (''mat-'' @ name_full fog_material)"
    by (simp_all add: example_ctx_def fog_material_def example_material_def)
  from volume_absorption_aborts[OF n(1) n(2) u n(3) u d, where c = example_ctx and b_mat = fog_material
      and out = ?out and depth = 3 and ls = "[]" and mp = "[(''type'', PStr ''transparent'')]"
      and sv = "linked_to 0 ''Volume''" and lN = "[]" and cache = "[]" and bpy = "[]"
      and mn = "''Cube''" and mt = "''MESH''" and slots = "[Some paint_material]" and meshes = "[]"]
    h s l e
  show ?thesis by (simp del: export_meshes.simps)
qed

lemma get_dummy_material_eq:
  "get_dummy_material (Some nm) =
     ([], Inr [(''type'', PStr ''diffuse''), (''color'', PList [PFloat 1, PFloat 0, PFloat 0.3]),
               (''name'', PStr (material_name nm))])"
  by (simp add: get_dummy_material_def lift_def color_def return_def)

lemma py_list_not_NotImplementedError: "py_list v \<noteq> Inl (NotImplementedError m)"
  by (cases v) simp_all

lemma color_not_NotImplementedError: "color v \<noteq> Inl (NotImplementedError m)"
  using py_list_not_NotImplementedError[of v m]
  by (auto simp: color_def split: sum.splits list.splits if_splits)

lemma convert_material_recovers:
  assumes "use_nodes b_mat" "convert_material_try depth c b_mat = (lg, Inl (NotImplementedError msg))"
  shows "convert_material depth c b_mat =
     (lg @ [(''WARNING'',
        [PStr (''Export of material '' @ [CHR 0x27] @ name_full b_mat @ [CHR 0x27] @ '' failed: ''
               @ msg @ ''. Exporting a dummy material instead.'')])],
      Inr ([(''type'', PStr ''diffuse''), (''color'', PList [PFloat 1, PFloat 0, PFloat 0.3]),
            (''name'', PStr (material_name (name_full b_mat)))], PNone))"
  using assms
  by (simp add: convert_material_def catch_NotImplementedError_def get_dummy_material_eq report_bind
      return_def)

lemma convert_material_passes:
  assumes "use_nodes b_mat" "convert_material_try depth c b_mat = (lg, Inl e)"
    "\<forall>m. e \<noteq> NotImplementedError m"
  shows "convert_material depth c b_mat = (lg, Inl e)"
  using assms
  by (cases e) (simp_all add: convert_material_def catch_NotImplementedError_def)

lemma convert_material_never_NotImplementedError:
  "convert_material depth c b_mat \<noteq> (lg, Inl (NotImplementedError m))"
proof (cases "use_nodes b_mat")
  case True
  obtain l r where t: "convert_material_try depth c b_mat = (l, r)"
    by (cases "convert_material_try depth c b_mat")
  show ?thesis
  proof (cases r)
    case (Inl e)
    show ?thesis
    proof (cases "\<exists>msg. e = NotImplementedError msg")
      case True
      then obtain msg where "e = NotImplementedError msg" by blast
      with convert_material_recovers[OF \<open>use_nodes b_mat\<close>] t Inl show ?thesis by simp
    next
      case False
      with convert_material_passes[OF \<open>use_nodes b_mat\<close>] t Inl show ?thesis by auto
    qed
  next
    case (Inr v)
    with True t show ?thesis
      by (simp add: convert_material_def catch_NotImplementedError_def)
  qed
next
  case False
  then show ?thesis
    using color_not_NotImplementedError[of "diffuse_color b_mat" m]
    by (cases "color (diffuse_color b_mat)")
      (auto simp: convert_material_def get_dummy_material_eq lift_def return_def raise_def)
qed

text \<open>
  Claim C2, as the code has it. The handler of \<open>convert_material\<close> is for
  \<open>NotImplementedError\<close> only. A \<open>NotImplementedError\<close> raised anywhere in the conversion of
  a material that uses nodes is replaced by one warning, which names the material and carries
  the message, and by the dummy diffuse placeholder with the material's name and no medium;
  so \<open>convert_material\<close> never raises \<open>NotImplementedError\<close>. Every other exception of the
  conversion (the \<open>ValueError\<close> of the value normalizer among them) leaves
  \<open>convert_material\<close> as it is.
\<close>

theorem named_boundary:
  "convert_material depth c b_mat \<noteq> (lg', Inl (NotImplementedError m))
   \<and> (use_nodes b_mat \<and> convert_material_try depth c b_mat = (lg, Inl (NotImplementedError msg))
      \<longrightarrow> convert_material depth c b_mat =
           (lg @ [(''WARNING'',
              [PStr (''Export of material '' @ [CHR 0x27] @ name_full b_mat @ [CHR 0x27]
                     @ '' failed: '' @ msg @ ''. Exporting a dummy material instead.'')])],
            Inr ([(''type'', PStr ''diffuse''),
                  (''color'', PList [PFloat 1, PFloat 0, PFloat 0.3]),
                  (''name'', PStr (material_name (name_full b_mat)))], PNone)))
   \<and> (use_nodes b_mat \<and> convert_material_try depth c b_mat = (lg, Inl e)
        \<and> (\<forall>m. e \<noteq> NotImplementedError m)
      \<longrightarrow> convert_material depth c b_mat = (lg, Inl e))"
  using convert_material_never_NotImplementedError convert_material_recovers
    convert_material_passes
  by blast

theorem named_boundary_witness:
  "convert_material 3 example_ctx principled_material =
     ([(''WARNING'',
        [PStr (''Export of material '' @ [CHR 0x27] @ ''Car Paint'' @ [CHR 0x27] @ '' failed: ''
               @ ''Node type: ShaderNodeBsdfPrincipled is not supported in Darts''
               @ ''. Exporting a dummy material instead.'')])],
      Inr ([(''type'', PStr ''diffuse''), (''color'', PList [PFloat 1, PFloat 0, PFloat 0.3]),
            (''name'', PStr ''Car_Paint'')], PNone))
   \<and> convert_material 3 example_ctx malformed_material
       = ([], Inl (ValueError ''Expected color items to be 1,3 or 4''))"
proof -
  have u: "use_nodes principled_material" "use_nodes malformed_material"
    "name_full principled_material = ''Car Paint''"
    by (simp_all add: principled_material_def malformed_material_def example_material_def)
  have t1: "convert_material_try 3 example_ctx principled_material
      = ([], Inl (NotImplementedError ''Node type: ShaderNodeBsdfPrincipled is not supported in Darts''))"
    by code_simp
  have t2: "convert_material_try 3 example_ctx malformed_material
      = ([], Inl (ValueError ''Expected color items to be 1,3 or 4''))"
    by code_simp
  from named_boundary[of 3 example_ctx principled_material _ _ "[]"
      "''Node type: ShaderNodeBsdfPrincipled is not supported in Darts''"] u t1
    named_boundary[of 3 example_ctx malformed_material _ _ "[]" _
      "ValueError ''Expected color items to be 1,3 or 4''"] t2
  show ?thesis by (simp add: material_name_def replace_char_def)
qed

text \<open>A material whose diffuse shader holds a colour of two channels: the \<open>ValueError\<close> of the
  value normalizer is not caught, \<open>convert_material\<close> raises it and no placeholder is made.\<close>

theorem named_boundary_counterexample:
  "convert_material 3 example_ctx malformed_material
     = ([], Inl (ValueError ''Expected color items to be 1,3 or 4''))"
  by code_simp

section \<open>Properties of the export loop\<close>

lemma first_uses_cong: "set seen = set seen' \<Longrightarrow> first_uses seen slots = first_uses seen' slots"
proof (induction seen slots arbitrary: seen' rule: first_uses.induct)
  case (1 seen)
  then show ?case by simp
next
  case (2 seen slots)
  then show ?case by simp
next
  case (3 seen mat slots)
  have "set (mat_key mat # seen) = set (mat_key mat # seen')" using "3.prems" by simp
  with 3 show ?case by auto
qed

lemma first_uses_append:
  "first_uses seen (a @ b) = first_uses seen a @ first_uses (map mat_key (first_uses seen a) @ seen) b"
proof (induction seen a rule: first_uses.induct)
  case (1 seen)
  then show ?case by simp
next
  case (2 seen slots)
  then show ?case by simp
next
  case (3 seen mat slots)
  have "first_uses (map mat_key (first_uses (mat_key mat # seen) slots) @ mat_key mat # seen) b
      = first_uses (mat_key mat # map mat_key (first_uses (mat_key mat # seen) slots) @ seen) b"
    by (rule first_uses_cong) auto
  with 3 show ?case by simp
qed

lemma first_uses_fresh: "m \<in> set (first_uses seen slots) \<Longrightarrow> mat_key m \<notin> set seen"
  by (induction seen slots rule: first_uses.induct) (auto split: if_splits)

lemma first_uses_distinct: "distinct (map mat_key (first_uses seen slots))"
  by (induction seen slots rule: first_uses.induct) (auto dest: first_uses_fresh)

lemma export_material_cached:
  assumes "name_full mat \<noteq> ''Dots Stroke''" "users mat \<noteq> 0"
    "dict_has (already_exported st) (mat_key mat)"
  shows "export_material depth c st (Some mat) =
     ((if verbose c
       then [(''INFO'', [PStr (''Skipping previously exported material '' @ [CHR 0x27]
                        @ name_full mat @ [CHR 0x27] @ ''.'')])]
       else []), Inr st)"
  using assms
  by (simp add: export_material_def mat_key_def info_def report_bind return_def)

lemma export_material_spec:
  assumes r: "export_material depth c st slot = (lg, Inr st')"
    and inv: "\<forall>k. dict_has (already_exported st) k \<longleftrightarrow> k \<in> set seen"
  shows "materials st' = materials st @ map (converted depth c) (first_uses seen [slot])
     \<and> (\<forall>k. dict_has (already_exported st') k \<longleftrightarrow> k \<in> set (map mat_key (first_uses seen [slot]) @ seen))"
proof (cases slot)
  case None
  with r inv show ?thesis by (simp add: export_material_def)
next
  case (Some mat)
  show ?thesis
  proof (cases "name_full mat = ''Dots Stroke'' \<or> users mat = 0")
    case True
    with r Some have "st' = st"
      by (auto simp: export_material_def elim!: bind_InrE)
    with True Some inv show ?thesis by auto
  next
    case False
    show ?thesis
    proof (cases "dict_has (already_exported st) (mat_key mat)")
      case True
      with False r Some have "st' = st"
        by (auto simp: export_material_def mat_key_def elim!: bind_InrE)
      with True Some inv show ?thesis by auto
    next
      case nc: False
      from r Some False nc obtain l p where
        cm: "convert_material depth c mat = (l, Inr p)"
        and st': "st' = \<lparr>materials = materials st @ [PDict (fst p)],
                  media = (if truthy (snd p) then media st @ [snd p] else media st),
                  already_exported = dict_set (already_exported st) (mat_key mat) (PDict (fst p))\<rparr>"
        by (auto simp: export_material_def mat_key_def Let_def elim!: bind_InrE)
      have "converted depth c mat = PDict (fst p)" using cm by (simp add: converted_def)
      with st' Some False nc inv show ?thesis by auto
    qed
  qed
qed

lemma export_materials_spec:
  assumes r: "export_materials depth c st slots = (lg, Inr st')"
    and inv: "\<forall>k. dict_has (already_exported st) k \<longleftrightarrow> k \<in> set seen"
  shows "materials st' = materials st @ map (converted depth c) (first_uses seen slots)
     \<and> (\<forall>k. dict_has (already_exported st') k \<longleftrightarrow> k \<in> set (map mat_key (first_uses seen slots) @ seen))"
  using r inv
proof (induction slots arbitrary: st seen lg)
  case Nil
  then show ?case by simp
next
  case (Cons slot slots)
  from Cons.prems(1) obtain l1 st1 l2 where
    a: "export_material depth c st slot = (l1, Inr st1)"
    and b: "export_materials depth c st1 slots = (l2, Inr st')"
    by (auto elim!: bind_InrE)
  note s1 = export_material_spec[OF a Cons.prems(2)]
  from s1 have inv1: "\<forall>k. dict_has (already_exported st1) k
      \<longleftrightarrow> k \<in> set (map mat_key (first_uses seen [slot]) @ seen)" by blast
  note s2 = Cons.IH[OF b inv1]
  have "first_uses seen (slot # slots)
      = first_uses seen [slot] @ first_uses (map mat_key (first_uses seen [slot]) @ seen) slots"
    using first_uses_append[of seen "[slot]" slots] by simp
  with s1 s2 show ?case by auto
qed

lemma export_meshes_spec:
  assumes r: "export_meshes depth c st meshes = (lg, Inr st')"
    and inv: "\<forall>k. dict_has (already_exported st) k \<longleftrightarrow> k \<in> set seen"
  shows "materials st' = materials st @ map (converted depth c) (first_uses seen (all_slots meshes))
     \<and> (\<forall>k. dict_has (already_exported st') k
           \<longleftrightarrow> k \<in> set (map mat_key (first_uses seen (all_slots meshes)) @ seen))"
  using r inv
proof (induction meshes arbitrary: st seen lg)
  case Nil
  then show ?case by simp
next
  case (Cons m meshes)
  show ?case
  proof (cases "data_materials m")
    case None
    with Cons show ?thesis by simp
  next
    case (Some slots)
    show ?thesis
    proof (cases "slots = []")
      case True
      with Some Cons show ?thesis by simp
    next
      case False
      from Cons.prems(1) Some False obtain l1 st1 l2 where
        a: "export_materials depth c st slots = (l1, Inr st1)"
        and b: "export_meshes depth c st1 meshes = (l2, Inr st')"
        by (auto elim!: bind_InrE)
      note s1 = export_materials_spec[OF a Cons.prems(2)]
      from s1 have inv1: "\<forall>k. dict_has (already_exported st1) k
          \<longleftrightarrow> k \<in> set (map mat_key (first_uses seen slots) @ seen)" by blast
      note s2 = Cons.IH[OF b inv1]
      have "first_uses seen (all_slots (m # meshes))
          = first_uses seen slots @ first_uses (map mat_key (first_uses seen slots) @ seen) (all_slots meshes)"
        using Some first_uses_append[of seen slots "all_slots meshes"] by simp
      with s1 s2 show ?thesis by auto
    qed
  qed
qed

lemma dict_has_keys: "dict_has d k \<longleftrightarrow> k \<in> set (map fst d)"
  by (simp add: dict_has_def map_of_eq_None_iff)

lemma export_material_cache:
  assumes r: "export_material depth c st slot = (lg, Inr st')"
    and inv: "\<forall>k. dict_has (already_exported st) k \<longleftrightarrow> k \<in> set seen"
  shows "(\<forall>m\<in>set (first_uses seen [slot]).
            map_of (already_exported st') (mat_key m) = Some (converted depth c m))
     \<and> (\<forall>k. k \<notin> mat_key ` set (first_uses seen [slot])
            \<longrightarrow> map_of (already_exported st') k = map_of (already_exported st) k)"
proof (cases slot)
  case None
  with r inv show ?thesis by (simp add: export_material_def)
next
  case (Some mat)
  show ?thesis
  proof (cases "name_full mat = ''Dots Stroke'' \<or> users mat = 0")
    case True
    with r Some have "st' = st"
      by (auto simp: export_material_def elim!: bind_InrE)
    with True Some inv show ?thesis by auto
  next
    case False
    show ?thesis
    proof (cases "dict_has (already_exported st) (mat_key mat)")
      case True
      with False r Some have "st' = st"
        by (auto simp: export_material_def mat_key_def elim!: bind_InrE)
      with True Some inv show ?thesis by auto
    next
      case nc: False
      from r Some False nc obtain l p where
        cm: "convert_material depth c mat = (l, Inr p)"
        and st': "st' = \<lparr>materials = materials st @ [PDict (fst p)],
                  media = (if truthy (snd p) then media st @ [snd p] else media st),
                  already_exported = dict_set (already_exported st) (mat_key mat) (PDict (fst p))\<rparr>"
        by (auto simp: export_material_def mat_key_def Let_def elim!: bind_InrE)
      have "converted depth c mat = PDict (fst p)" using cm by (simp add: converted_def)
      with st' Some False nc inv show ?thesis by auto
    qed
  qed
qed

lemma cache_compose:
  assumes a1: "\<forall>m\<in>set A. map_of d1 (mat_key m) = Some (f m)"
    and a2: "\<forall>k. k \<notin> mat_key ` set A \<longrightarrow> map_of d1 k = map_of d0 k"
    and b1: "\<forall>m\<in>set B. map_of d2 (mat_key m) = Some (f m)"
    and b2: "\<forall>k. k \<notin> mat_key ` set B \<longrightarrow> map_of d2 k = map_of d1 k"
    and fresh: "\<forall>m\<in>set B. mat_key m \<notin> mat_key ` set A"
  shows "(\<forall>m\<in>set (A @ B). map_of d2 (mat_key m) = Some (f m))
     \<and> (\<forall>k. k \<notin> mat_key ` set (A @ B) \<longrightarrow> map_of d2 k = map_of d0 k)"
proof (intro conjI ballI allI impI)
  fix m assume m: "m \<in> set (A @ B)"
  show "map_of d2 (mat_key m) = Some (f m)"
  proof (cases "m \<in> set B")
    case True
    with b1 show ?thesis by simp
  next
    case False
    with m have mA: "m \<in> set A" by simp
    have "mat_key m \<notin> mat_key ` set B"
    proof
      assume "mat_key m \<in> mat_key ` set B"
      then obtain m' where "m' \<in> set B" "mat_key m = mat_key m'" by auto
      with fresh mA show False by (metis imageI)
    qed
    with b2 have "map_of d2 (mat_key m) = map_of d1 (mat_key m)" by simp
    with a1 mA show ?thesis by simp
  qed
next
  fix k assume k: "k \<notin> mat_key ` set (A @ B)"
  then have "k \<notin> mat_key ` set A" "k \<notin> mat_key ` set B" by auto
  with a2 b2 show "map_of d2 k = map_of d0 k" by simp
qed

lemma first_uses_fresh_image:
  "\<forall>m\<in>set (first_uses (map mat_key A @ seen) slots). mat_key m \<notin> mat_key ` set A"
  using first_uses_fresh[of _ "map mat_key A @ seen" slots] by auto

lemma export_materials_cache:
  assumes r: "export_materials depth c st slots = (lg, Inr st')"
    and inv: "\<forall>k. dict_has (already_exported st) k \<longleftrightarrow> k \<in> set seen"
  shows "(\<forall>m\<in>set (first_uses seen slots).
            map_of (already_exported st') (mat_key m) = Some (converted depth c m))
     \<and> (\<forall>k. k \<notin> mat_key ` set (first_uses seen slots)
            \<longrightarrow> map_of (already_exported st') k = map_of (already_exported st) k)"
  using r inv
proof (induction slots arbitrary: st seen lg)
  case Nil
  then show ?case by simp
next
  case (Cons slot slots)
  from Cons.prems(1) obtain l1 st1 l2 where
    a: "export_material depth c st slot = (l1, Inr st1)"
    and b: "export_materials depth c st1 slots = (l2, Inr st')"
    by (auto elim!: bind_InrE)
  note s1 = export_material_cache[OF a Cons.prems(2)]
  from export_material_spec[OF a Cons.prems(2)]
  have inv1: "\<forall>k. dict_has (already_exported st1) k
      \<longleftrightarrow> k \<in> set (map mat_key (first_uses seen [slot]) @ seen)" by blast
  note s2 = Cons.IH[OF b inv1]
  have eq: "first_uses seen (slot # slots)
      = first_uses seen [slot] @ first_uses (map mat_key (first_uses seen [slot]) @ seen) slots"
    using first_uses_append[of seen "[slot]" slots] by simp
  show ?case
    unfolding eq
    by (rule cache_compose[OF s1[THEN conjunct1] s1[THEN conjunct2]
          s2[THEN conjunct1] s2[THEN conjunct2] first_uses_fresh_image])
qed

lemma export_meshes_cache:
  assumes r: "export_meshes depth c st meshes = (lg, Inr st')"
    and inv: "\<forall>k. dict_has (already_exported st) k \<longleftrightarrow> k \<in> set seen"
  shows "(\<forall>m\<in>set (first_uses seen (all_slots meshes)).
            map_of (already_exported st') (mat_key m) = Some (converted depth c m))
     \<and> (\<forall>k. k \<notin> mat_key ` set (first_uses seen (all_slots meshes))
            \<longrightarrow> map_of (already_exported st') k = map_of (already_exported st) k)"
  using r inv
proof (induction meshes arbitrary: st seen lg)
  case Nil
  then show ?case by simp
next
  case (Cons m meshes)
  show ?case
  proof (cases "data_materials m")
    case None
    with Cons show ?thesis by simp
  next
    case (Some slots)
    show ?thesis
    proof (cases "slots = []")
      case True
      with Some Cons show ?thesis by simp
    next
      case False
      from Cons.prems(1) Some False obtain l1 st1 l2 where
        a: "export_materials depth c st slots = (l1, Inr st1)"
        and b: "export_meshes depth c st1 meshes = (l2, Inr st')"
        by (auto elim!: bind_InrE)
      note s1 = export_materials_cache[OF a Cons.prems(2)]
      from export_materials_spec[OF a Cons.prems(2)]
      have inv1: "\<forall>k. dict_has (already_exported st1) k
          \<longleftrightarrow> k \<in> set (map mat_key (first_uses seen slots) @ seen)" by blast
      note s2 = Cons.IH[OF b inv1]
      have eq: "first_uses seen (all_slots (m # meshes))
          = first_uses seen slots @ first_uses (map mat_key (first_uses seen slots) @ seen) (all_slots meshes)"
        using Some first_uses_append[of seen slots "all_slots meshes"] by simp
      show ?thesis
        unfolding eq
        by (rule cache_compose[OF s1[THEN conjunct1] s1[THEN conjunct2]
              s2[THEN conjunct1] s2[THEN conjunct2] first_uses_fresh_image])
    qed
  qed
qed

lemma first_uses_example:
  "first_uses (map fst ([] :: pydict)) (all_slots example_meshes) = [paint_material, principled_material]"
  by (simp add: example_meshes_def example_mesh_def paint_material_def principled_material_def
        example_material_def mat_key_def)

text \<open>
  Claim C3. A material slot whose key \<open>mat-\<close> plus full name is already in the cache
  leaves the state of the export unchanged and makes at most the one \<open>INFO\<close> report that it
  is skipped: nothing is converted. A whole run in \<open>CONVERT\<close> mode that returns has appended
  to the default material exactly one descriptor for each material met for the first time,
  namely what \<open>convert_material\<close> returns for it, in the order of the first encounters; the
  keys of these materials are distinct, the keys of the cache at the end are those of
  the start and these, the cache holds under the key of each such material the descriptor
  that was appended for it, and the entries of the cache at the start are kept.
\<close>

theorem export_once:
  "(name_full mat \<noteq> ''Dots Stroke'' \<and> users mat \<noteq> 0 \<and> dict_has (already_exported st0) (mat_key mat)
      \<longrightarrow> export_material depth c st0 (Some mat) =
           ((if verbose c
             then [(''INFO'', [PStr (''Skipping previously exported material '' @ [CHR 0x27]
                        @ name_full mat @ [CHR 0x27] @ ''.'')])]
             else []), Inr st0))
   \<and> (material_mode c = ''CONVERT'' \<and> export depth c bpy cache meshes = (lg, Inr st)
      \<longrightarrow> materials st =
             PDict [(''type'', PStr ''diffuse''), (''name'', PStr ''default''), (''color'', PFloat 0.2)]
             # map (converted depth c) (first_uses (map fst cache) (all_slots meshes))
          \<and> distinct (map mat_key (first_uses (map fst cache) (all_slots meshes)))
          \<and> (\<forall>k. dict_has (already_exported st) k
                \<longleftrightarrow> dict_has cache k
                    \<or> k \<in> set (map mat_key (first_uses (map fst cache) (all_slots meshes))))
          \<and> (\<forall>m\<in>set (first_uses (map fst cache) (all_slots meshes)).
                dict_get (already_exported st) (mat_key m) = Inr (converted depth c m))
          \<and> (\<forall>k. dict_has cache k \<longrightarrow> dict_get (already_exported st) k = dict_get cache k))"
proof -
  let ?F = "first_uses (map fst cache) (all_slots meshes)"
  have b: "materials st =
             PDict [(''type'', PStr ''diffuse''), (''name'', PStr ''default''), (''color'', PFloat 0.2)]
             # map (converted depth c) ?F
          \<and> (\<forall>k. dict_has (already_exported st) k
                \<longleftrightarrow> dict_has cache k \<or> k \<in> set (map mat_key ?F))
          \<and> (\<forall>m\<in>set ?F. dict_get (already_exported st) (mat_key m) = Inr (converted depth c m))
          \<and> (\<forall>k. dict_has cache k \<longrightarrow> dict_get (already_exported st) k = dict_get cache k)"
    if h: "material_mode c = ''CONVERT''" "export depth c bpy cache meshes = (lg, Inr st)"
  proof -
    let ?st = "\<lparr>materials = [PDict [(''type'', PStr ''diffuse''), (''name'', PStr ''default''),
                                     (''color'', PFloat 0.2)]],
               media = [], already_exported = cache\<rparr>"
    from h obtain l2 where e: "export_meshes depth c ?st meshes = (l2, Inr st)"
      unfolding export_def Let_def by (auto elim!: bind_InrE)
    have inv: "\<forall>k. dict_has (already_exported ?st) k \<longleftrightarrow> k \<in> set (map fst cache)"
      using dict_has_keys by simp
    note s = export_meshes_spec[OF e inv]
    note t = export_meshes_cache[OF e inv]
    have p1: "materials st =
             PDict [(''type'', PStr ''diffuse''), (''name'', PStr ''default''), (''color'', PFloat 0.2)]
             # map (converted depth c) ?F"
      using s by simp
    have p2: "\<forall>k. dict_has (already_exported st) k
                \<longleftrightarrow> dict_has cache k \<or> k \<in> set (map mat_key ?F)"
      using s dict_has_keys[of cache] by auto
    have p3: "\<forall>m\<in>set ?F. dict_get (already_exported st) (mat_key m) = Inr (converted depth c m)"
      using t by (simp add: dict_get_def)
    have p4: "\<forall>k. dict_has cache k \<longrightarrow> dict_get (already_exported st) k = dict_get cache k"
    proof (intro allI impI)
      fix k assume k: "dict_has cache k"
      have "k \<notin> mat_key ` set ?F"
      proof
        assume "k \<in> mat_key ` set ?F"
        then obtain m where "m \<in> set ?F" "k = mat_key m" by auto
        with first_uses_fresh[of m "map fst cache" "all_slots meshes"] k dict_has_keys[of cache k]
        show False by simp
      qed
      with t have "map_of (already_exported st) k = map_of cache k" by simp
      then show "dict_get (already_exported st) k = dict_get cache k" by (simp add: dict_get_def)
    qed
    from p1 p2 p3 p4 show ?thesis by blast
  qed
  from export_material_cached[of mat st0 depth c] b first_uses_distinct[of "map fst cache" "all_slots meshes"]
  show ?thesis by blast
qed

theorem export_once_witness:
  "\<exists>lg st.
     export 3 example_ctx [] [] example_meshes = (lg, Inr st)
     \<and> materials st =
          PDict [(''type'', PStr ''diffuse''), (''name'', PStr ''default''), (''color'', PFloat 0.2)]
          # map (converted 3 example_ctx) (first_uses (map fst ([] :: pydict)) (all_slots example_meshes))
     \<and> length (materials st) = 3
     \<and> distinct (map mat_key (first_uses (map fst ([] :: pydict)) (all_slots example_meshes)))
     \<and> paint_material \<in> set (first_uses (map fst ([] :: pydict)) (all_slots example_meshes))
     \<and> dict_get (already_exported st) (mat_key paint_material) = Inr (converted 3 example_ctx paint_material)
     \<and> export_material 3 example_ctx st (Some paint_material) = ([], Inr st)"
proof -
  let ?lg = "[(''WARNING'',
        [PStr (''Export of material '' @ [CHR 0x27] @ ''Car Paint'' @ [CHR 0x27] @ '' failed: ''
               @ ''Node type: ShaderNodeBsdfPrincipled is not supported in Darts''
               @ ''. Exporting a dummy material instead.'')])]"
  let ?paint = "PDict [(''name'', PStr ''Red_Paint''), (''type'', PStr ''two sided''),
            (''both sides'', PDict
               [(''type'', PStr ''diffuse''),
                (''color'', PList [PFloat (4 / 5), PFloat (1 / 10), PFloat (1 / 10)]),
                (''roughness'', PFloat 0)])]"
  let ?dummy = "PDict [(''type'', PStr ''diffuse''),
            (''color'', PList [PFloat 1, PFloat 0, PFloat (3 / 10)]),
            (''name'', PStr ''Car_Paint'')]"
  let ?st = "\<lparr>materials =
         [PDict [(''type'', PStr ''diffuse''), (''name'', PStr ''default''),
                 (''color'', PFloat (1 / 5))], ?paint, ?dummy],
       media = [],
       already_exported = [(''mat-Red Paint'', ?paint), (''mat-Car Paint'', ?dummy)]\<rparr>"
  let ?F = "first_uses (map fst ([] :: pydict)) (all_slots example_meshes)"
  have e: "export 3 example_ctx [] [] example_meshes = (?lg, Inr ?st)"
    by code_simp
  have m: "material_mode example_ctx = ''CONVERT''" "\<not> verbose example_ctx"
    by (simp_all add: example_ctx_def)
  have p: "name_full paint_material \<noteq> ''Dots Stroke''" "users paint_material \<noteq> 0"
    "dict_has (already_exported ?st) (mat_key paint_material)"
    by (simp_all add: paint_material_def example_material_def mat_key_def dict_has_def)
  have f: "paint_material \<in> set ?F"
    by (simp only: first_uses_example list.set insertI1)
  note eo = export_once[of paint_material ?st 3 example_ctx "[]" "[]" example_meshes ?lg ?st]
  have c1: "export_material 3 example_ctx ?st (Some paint_material) = ([], Inr ?st)"
    using eo[THEN conjunct1, rule_format, OF conjI[OF p(1) conjI[OF p(2) p(3)]]] m(2)
    by (simp only: if_False)
  note c2 = eo[THEN conjunct2, rule_format, OF conjI[OF m(1) e]]
  note c3 = c2[THEN conjunct2, THEN conjunct2, THEN conjunct2, THEN conjunct1, rule_format, OF f]
  have "materials ?st =
          PDict [(''type'', PStr ''diffuse''), (''name'', PStr ''default''), (''color'', PFloat 0.2)]
          # map (converted 3 example_ctx) ?F
     \<and> distinct (map mat_key ?F)
     \<and> paint_material \<in> set ?F
     \<and> dict_get (already_exported ?st) (mat_key paint_material) = Inr (converted 3 example_ctx paint_material)
     \<and> export_material 3 example_ctx ?st (Some paint_material) = ([], Inr ?st)"
    by (intro conjI) (rule c2[THEN conjunct1], rule c2[THEN conjunct2, THEN conjunct1], rule f, rule c3, rule c1)
  moreover have "length (materials ?st) = 3" by simp
  ultimately show ?thesis using e by blast
qed

end
